theory Spec2Isabelle
  imports Complex_Main
begin

section \<open>Data model\<close>

text \<open>
  The session manager works on the network functions (NFs) held by the global data store.
  An NF is a JavaScript object; the fields the session manager reads or writes become
  record fields. Identifiers, type tags and status tags are strings in the source and
  stay strings here. An absent or empty string field (both falsy in JavaScript) is the
  empty string; an absent object or number field is \<open>None\<close>. Counters and identifiers
  that the code only increments are integers; positions, speeds and progress fractions
  are JavaScript numbers and are modelled as exact rationals (no property shown below
  depends on rounding).
\<close>

record assignment =
  a_ueId :: string
  a_ueName :: string
  a_ip :: string
  a_assignedAt :: nat

record tun0_iface =
  gatewayIP :: string
  assignedIPs :: "assignment list option"
  nextAvailableIP :: "int option"

datatype session_state = IDLE | ESTABLISHING | ACTIVE | RELEASING | RELEASED

record pdu_session_cfg =
  ps_sessionId :: "nat option"
  ps_upfId :: string
  ps_assignedIP :: "string option"
  ps_status :: string
  ps_establishedAt :: nat

record tun_iface =
  tun_name :: string
  tun_ipAddress :: "string option"
  tun_netmask :: string
  tun_destination :: "string option"
  tun_gateway :: string
  tun_mtu :: nat
  tun_flags :: string
  tun_createdAt :: nat

record nf_config =
  ipAddress :: string
  subscriberImsi :: string
  tun0Interface :: "tun0_iface option"
  pduSession :: "pdu_session_cfg option"
  pduSessionState :: "session_state option"
  tunInterface :: "tun_iface option"

record nf =
  nf_id :: string
  nf_name :: string
  nf_type :: string
  nf_status :: string
  nf_x :: rat
  nf_y :: rat
  config :: nf_config

record connection =
  sourceId :: string
  targetId :: string

record bus_connection =
  bc_nfId :: string
  bc_busId :: string

record bus =
  bus_id :: string
  bus_horizontal :: bool
  bus_x :: rat
  bus_y :: rat

record store =
  nfs :: "nf list"
  connections :: "connection list"
  busConnections :: "bus_connection list"
  buses :: "bus list"

section \<open>The data store queries\<close>

text \<open>
  The data store (\<open>window.dataStore\<close>) is not among the source files; only its callers
  are. Its queries are modelled from the specification's description of the topology
  store and from the way the callers use the results.
\<close>

definition getNFById :: "store \<Rightarrow> string \<Rightarrow> nf option" where
  \<comment> \<open>Modelled from the spec: the store's node lookup by identity (the store is missing).\<close>
  "getNFById st i = find (\<lambda>n. nf_id n = i) (nfs st)"

definition getAllNFs :: "store \<Rightarrow> nf list" where
  \<comment> \<open>Modelled from the spec: the ordered node list of the store (the store is missing).\<close>
  "getAllNFs st = nfs st"

definition getConnectionsForNF :: "store \<Rightarrow> string \<Rightarrow> connection list" where
  \<comment> \<open>Modelled from the spec: the query "links for node"; a link is an unordered pair, so
     the node may be either end (the store is missing).\<close>
  "getConnectionsForNF st i = filter (\<lambda>c. sourceId c = i \<or> targetId c = i) (connections st)"

definition getBusConnectionsForNF :: "store \<Rightarrow> string \<Rightarrow> bus_connection list" where
  \<comment> \<open>Modelled from the spec: the query "bus-attachments for node" (the store is missing).\<close>
  "getBusConnectionsForNF st i = filter (\<lambda>b. bc_nfId b = i) (busConnections st)"

definition getBusById :: "store \<Rightarrow> string \<Rightarrow> bus option" where
  \<comment> \<open>Modelled from the spec: the query "bus by id" (the store is missing).\<close>
  "getBusById st i = find (\<lambda>b. bus_id b = i) (buses st)"

definition updateNF :: "store \<Rightarrow> string \<Rightarrow> nf \<Rightarrow> store" where
  \<comment> \<open>Modelled from the spec: the store's mutation operation for a node's fields; the
     node stored under the identifier is replaced by the given object (the store is
     missing).\<close>
  "updateNF st i n = st\<lparr>nfs := map (\<lambda>m. if nf_id m = i then n else m) (nfs st)\<rparr>"

section \<open>Rendering numbers\<close>

text \<open>A template literal renders an integer in decimal, with a minus sign when negative.\<close>

definition digit_char :: "nat \<Rightarrow> char" where
  "digit_char d = ''0123456789'' ! d"

fun string_of_nat :: "nat \<Rightarrow> string" where
  "string_of_nat n =
     (if n < 10 then [digit_char n] else string_of_nat (n div 10) @ [digit_char (n mod 10)])"

declare string_of_nat.simps [simp del]

definition string_of_int :: "int \<Rightarrow> string" where
  "string_of_int i =
     (if i < 0 then CHR ''-'' # string_of_nat (nat (- i)) else string_of_nat (nat i))"

section \<open>Address allocation\<close>

text \<open>
  \<open>allocateUEIP(upf, ue)\<close> of the session manager. The timestamp \<open>Date.now()\<close> is a
  parameter. The function mutates the gateway object and hands it to \<open>updateNF\<close>; the model
  returns the address, the gateway object after the call and the store after the call.
\<close>

definition assigned_list :: "tun0_iface \<Rightarrow> assignment list" where
  \<comment> \<open>\<open>tun0.assignedIPs || []\<close>\<close>
  "assigned_list tun0 = (case assignedIPs tun0 of None \<Rightarrow> [] | Some l \<Rightarrow> l)"

definition candidateIP :: "int \<Rightarrow> string" where
  "candidateIP nextIP = ''10.0.0.'' @ string_of_int nextIP"

function allocateUEIP_loop ::
  "store \<Rightarrow> nf \<Rightarrow> tun0_iface \<Rightarrow> nf \<Rightarrow> nat \<Rightarrow> int \<Rightarrow> string \<times> nf \<times> store" where
  "allocateUEIP_loop st upf tun0 ue now nextIP =
     (if nextIP \<le> 14 then
        (if \<not> list_ex (\<lambda>a. a_ip a = candidateIP nextIP) (assigned_list tun0) then
           (let tun0' = tun0\<lparr>assignedIPs := Some (assigned_list tun0 @
                          [\<lparr>a_ueId = nf_id ue, a_ueName = nf_name ue,
                            a_ip = candidateIP nextIP, a_assignedAt = now\<rparr>]),
                        nextAvailableIP := Some (nextIP + 1)\<rparr>;
                upf' = upf\<lparr>config := (config upf)\<lparr>tun0Interface := Some tun0'\<rparr>\<rparr>
            in (candidateIP nextIP, upf', updateNF st (nf_id upf) upf'))
         else allocateUEIP_loop st upf tun0 ue now (nextIP + 1))
      else (''10.0.0.2'', upf, st))"
  by pat_completeness auto
termination
  by (relation "measure (\<lambda>(st, upf, tun0, ue, now, nextIP). nat (15 - nextIP))") auto

declare allocateUEIP_loop.simps [simp del]

definition allocateUEIP :: "store \<Rightarrow> nf \<Rightarrow> nf \<Rightarrow> nat \<Rightarrow> string \<times> nf \<times> store" where
  "allocateUEIP st upf ue now =
     (case tun0Interface (config upf) of
        None \<Rightarrow> (''10.0.0.2'', upf, st)
      | Some tun0 \<Rightarrow>
          allocateUEIP_loop st upf tun0 ue now
            (case nextAvailableIP tun0 of None \<Rightarrow> 2 | Some n \<Rightarrow> if n = 0 then 2 else n))"


text \<open>What the loop leaves in the gateway object when it hands out the address numbered \<open>k\<close>.\<close>

definition scan_start :: "tun0_iface \<Rightarrow> int" where
  \<comment> \<open>\<open>tun0.nextAvailableIP || 2\<close>\<close>
  "scan_start tun0 = (case nextAvailableIP tun0 of None \<Rightarrow> 2 | Some n \<Rightarrow> if n = 0 then 2 else n)"

definition taken :: "tun0_iface \<Rightarrow> int \<Rightarrow> bool" where
  "taken tun0 k = (candidateIP k \<in> a_ip ` set (assigned_list tun0))"

definition record_allocation :: "nf \<Rightarrow> tun0_iface \<Rightarrow> nf \<Rightarrow> nat \<Rightarrow> int \<Rightarrow> nf" where
  "record_allocation upf tun0 ue now k =
     upf\<lparr>config := (config upf)\<lparr>tun0Interface := Some (tun0\<lparr>
        assignedIPs := Some (assigned_list tun0 @
           [\<lparr>a_ueId = nf_id ue, a_ueName = nf_name ue, a_ip = candidateIP k, a_assignedAt = now\<rparr>]),
        nextAvailableIP := Some (k + 1)\<rparr>)\<rparr>\<rparr>"

text \<open>
  The same gateway object written on the entries \<open>m\<close> of the allocation mapping themselves:
  the entry of the requester is appended to \<open>m\<close> and the counter is \<open>k + 1\<close>.
\<close>

definition allocated_to ::
  "nf \<Rightarrow> tun0_iface \<Rightarrow> assignment list \<Rightarrow> nf \<Rightarrow> nat \<Rightarrow> int \<Rightarrow> nf" where
  "allocated_to upf tun0 m ue now k =
     upf\<lparr>config := (config upf)\<lparr>tun0Interface := Some (tun0\<lparr>
        assignedIPs := Some (m @
           [\<lparr>a_ueId = nf_id ue, a_ueName = nf_name ue, a_ip = candidateIP k, a_assignedAt = now\<rparr>]),
        nextAvailableIP := Some (k + 1)\<rparr>)\<rparr>\<rparr>"

section \<open>Reachability\<close>

text \<open>
  \<open>areNFsConnected(nfId1, nfId2)\<close> of the session manager. The two early returns are the
  first two branches; the loop over \<open>ueConns\<close> returns true at the first connection whose
  far end is a gNB that is connected to \<open>otherId\<close>, and the function returns false when the
  loop ends. In the source \<open>ueConns\<close> is \<open>connections\<close>, the connections of \<open>nfId1\<close>.
\<close>

definition nf_type_of :: "store \<Rightarrow> string \<Rightarrow> string option" where
  \<comment> \<open>\<open>window.dataStore?.getNFById(id)?.type\<close>\<close>
  "nf_type_of st i = map_option nf_type (getNFById st i)"

definition hasDirectConnection :: "store \<Rightarrow> string \<Rightarrow> string \<Rightarrow> bool" where
  "hasDirectConnection st nfId1 nfId2 =
     list_ex (\<lambda>conn. sourceId conn = nfId2 \<or> targetId conn = nfId2) (getConnectionsForNF st nfId1)"

definition shareBus :: "store \<Rightarrow> string \<Rightarrow> string \<Rightarrow> bool" where
  "shareBus st nfId1 nfId2 =
     list_ex (\<lambda>bc1. list_ex (\<lambda>bc2. bc_busId bc1 = bc_busId bc2) (getBusConnectionsForNF st nfId2))
       (getBusConnectionsForNF st nfId1)"

function areNFsConnected :: "store \<Rightarrow> string \<Rightarrow> string \<Rightarrow> bool" where
  "areNFsConnected st nfId1 nfId2 =
     (if hasDirectConnection st nfId1 nfId2 then True
      else if shareBus st nfId1 nfId2 then True
      else if nf_type_of st nfId1 = Some ''UE'' \<or> nf_type_of st nfId2 = Some ''UE'' then
        list_ex
          (\<lambda>conn.
             if nf_type_of st
                  (if sourceId conn = (if nf_type_of st nfId1 = Some ''UE'' then nfId1 else nfId2)
                   then targetId conn else sourceId conn) = Some ''gNB''
             then areNFsConnected st
                    (if sourceId conn = (if nf_type_of st nfId1 = Some ''UE'' then nfId1 else nfId2)
                     then targetId conn else sourceId conn)
                    (if nf_type_of st nfId1 = Some ''UE'' then nfId2 else nfId1)
             else False)
          (getConnectionsForNF st nfId1)
      else False)"
  by pat_completeness auto
termination
  by (relation "measure (\<lambda>(st, a, b).
        if nf_type_of st a = Some ''UE'' then 2 else if nf_type_of st b = Some ''UE'' then 1 else 0)")
     auto

declare areNFsConnected.simps [simp del]

section \<open>Prerequisite validation\<close>

text \<open>\<open>ip.split('.')\<close>: the pieces between the dots, one more than there are dots.\<close>

fun split_dot :: "string \<Rightarrow> string list" where
  "split_dot [] = [[]]"
| "split_dot (c # cs) =
     (if c = CHR ''.'' then [] # split_dot cs
      else (case split_dot cs of [] \<Rightarrow> [[c]] | p # ps \<Rightarrow> (c # p) # ps))"

definition getNetworkFromIP :: "string \<Rightarrow> string" where
  "getNetworkFromIP ip =
     (if ip = [] then []
      else if length (split_dot ip) \<noteq> 4 then []
      else split_dot ip ! 0 @ ''.'' @ split_dot ip ! 1 @ ''.'' @ split_dot ip ! 2)"

text \<open>
  The result object \<open>{valid, error, nfs}\<close>: either invalid with the reason string, or valid
  with the four nodes \<open>ue\<close>, \<open>amf\<close>, \<open>smf\<close>, \<open>upf\<close>.
\<close>

datatype validation = Invalid string | Valid nf nf nf nf

definition stable_in_subnet :: "string \<Rightarrow> string \<Rightarrow> nf \<Rightarrow> bool" where
  "stable_in_subnet ty ueNetwork n =
     (nf_type n = ty \<and> nf_status n = ''stable'' \<and>
      getNetworkFromIP (ipAddress (config n)) = ueNetwork)"

definition validatePrerequisites :: "store \<Rightarrow> string \<Rightarrow> validation" where
  "validatePrerequisites st ueId =
     (case getNFById st ueId of
        None \<Rightarrow> Invalid ''UE not found''
      | Some ue \<Rightarrow>
          if nf_type ue \<noteq> ''UE'' then Invalid ''UE not found''
          else if subscriberImsi (config ue) = [] then
            Invalid ''UE is not registered (no IMSI configured)''
          else
            (case find (stable_in_subnet ''AMF'' (getNetworkFromIP (ipAddress (config ue))))
                    (getAllNFs st) of
               None \<Rightarrow> Invalid ''No stable AMF found in same subnet''
             | Some amf \<Rightarrow>
                 if \<not> areNFsConnected st (nf_id ue) (nf_id amf) then
                   Invalid ''UE is not connected to AMF (directly or via gNB)''
                 else
                   (case find (stable_in_subnet ''SMF'' (getNetworkFromIP (ipAddress (config ue))))
                           (getAllNFs st) of
                      None \<Rightarrow> Invalid ''No stable SMF found in same subnet''
                    | Some smf \<Rightarrow>
                        (case find (stable_in_subnet ''UPF''
                                      (getNetworkFromIP (ipAddress (config ue))))
                                (getAllNFs st) of
                           None \<Rightarrow> Invalid ''No stable UPF found in same subnet''
                         | Some upf \<Rightarrow>
                             if tun0Interface (config upf) = None then
                               Invalid ''UPF does not have tun0 interface configured''
                             else Valid ue amf smf upf))))"

section \<open>The session manager\<close>

text \<open>
  The session manager keeps one session object per terminal in \<open>this.sessions\<close>. The
  orchestration is asynchronous in the source; one lifecycle operation is modelled as one
  uninterrupted run on the world (the store, the sessions and the messages sent so far),
  so no other terminal's lifecycle and no editing of the topology interleaves with it.
  The random numbers and the clock are parameters of the run. A protocol step may throw
  (the animator and the log engine are external collaborators): the environment says for
  which messages the transmission throws, and a step that throws returns the exception
  together with the world as it was left.
\<close>

record session =
  s_ueId :: string
  state :: session_state
  pduSessionId :: "nat option"
  assignedIP :: "string option"
  tunnelId :: "string option"
  upfId :: "string option"
  createdAt :: "nat option"

datatype msg =
    N1_EstablishmentRequest | Nsmf_PDUSession_Create
  | N4_EstablishmentRequest | N4_EstablishmentResponse
  | PDU_SessionAccept | N1_EstablishmentAccept
  | N1_ReleaseRequest | Nsmf_PDUSession_Release
  | N4_ReleaseRequest | N4_ReleaseResponse
  | ReleaseConfirmation | N1_ReleaseComplete

record world =
  w_store :: store
  w_sessions :: "string \<Rightarrow> session option"
  w_trace :: "(msg \<times> string \<times> string) list"

record env =
  env_now :: nat
  env_random_sid :: nat
  env_random_tunnel :: nat
  env_throws :: "msg \<Rightarrow> bool"

definition new_session :: "string \<Rightarrow> session" where
  "new_session ueId = \<lparr>s_ueId = ueId, state = IDLE, pduSessionId = None, assignedIP = None,
     tunnelId = None, upfId = None, createdAt = None\<rparr>"

definition getSession :: "world \<Rightarrow> string \<Rightarrow> session \<times> world" where
  "getSession w ueId =
     (case w_sessions w ueId of
        None \<Rightarrow> (new_session ueId, w\<lparr>w_sessions := (w_sessions w)(ueId \<mapsto> new_session ueId)\<rparr>)
      | Some s \<Rightarrow> (s, w))"

definition getSessionState :: "world \<Rightarrow> string \<Rightarrow> session_state" where
  "getSessionState w ueId = state (fst (getSession w ueId))"

text \<open>An assignment to a field of the session object of a terminal.\<close>

definition modify_session :: "world \<Rightarrow> string \<Rightarrow> (session \<Rightarrow> session) \<Rightarrow> world" where
  "modify_session w ueId f =
     w\<lparr>w_sessions := (w_sessions w)(ueId \<mapsto> f (fst (getSession w ueId)))\<rparr>"

text \<open>\<open>animatePacket\<close> followed by the settling delay: the message is sent, or the step throws.\<close>

definition animatePacket ::
  "env \<Rightarrow> msg \<Rightarrow> string \<Rightarrow> string \<Rightarrow> world \<Rightarrow> (msg \<times> world) + world" where
  "animatePacket e m src tgt w =
     (if env_throws e m then Inl (m, w) else Inr (w\<lparr>w_trace := w_trace w @ [(m, src, tgt)]\<rparr>))"

definition sendN1EstablishmentRequest :: "env \<Rightarrow> nf \<Rightarrow> nf \<Rightarrow> world \<Rightarrow> (msg \<times> world) + world" where
  "sendN1EstablishmentRequest e ue amf w =
     animatePacket e N1_EstablishmentRequest (nf_id ue) (nf_id amf) w"

definition sendNsmfPDUSessionCreate :: "env \<Rightarrow> nf \<Rightarrow> nf \<Rightarrow> world \<Rightarrow> (msg \<times> world) + world" where
  "sendNsmfPDUSessionCreate e amf smf w =
     animatePacket e Nsmf_PDUSession_Create (nf_id amf) (nf_id smf) w"

definition sendN4SessionEstablishment ::
  "env \<Rightarrow> nf \<Rightarrow> nf \<Rightarrow> nf \<Rightarrow> world \<Rightarrow> (msg \<times> world) + ((string \<times> string \<times> nf) \<times> world)" where
  "sendN4SessionEstablishment e smf upf ue w =
     (case animatePacket e N4_EstablishmentRequest (nf_id smf) (nf_id upf) w of
        Inl x \<Rightarrow> Inl x
      | Inr w1 \<Rightarrow>
          (case allocateUEIP (w_store w1) upf ue (env_now e) of
             (ip, upf', st') \<Rightarrow>
               (case animatePacket e N4_EstablishmentResponse (nf_id upf') (nf_id smf)
                       (w1\<lparr>w_store := st'\<rparr>) of
                  Inl x \<Rightarrow> Inl x
                | Inr w2 \<Rightarrow>
                    Inr ((ip, ''gtp-'' @ string_of_nat (1000 + env_random_tunnel e), upf'),
                         w2))))"

definition sendPDUSessionAccept :: "env \<Rightarrow> nf \<Rightarrow> nf \<Rightarrow> world \<Rightarrow> (msg \<times> world) + world" where
  "sendPDUSessionAccept e smf amf w =
     animatePacket e PDU_SessionAccept (nf_id smf) (nf_id amf) w"

definition sendN1SessionAccept :: "env \<Rightarrow> nf \<Rightarrow> nf \<Rightarrow> world \<Rightarrow> (msg \<times> world) + world" where
  "sendN1SessionAccept e amf ue w =
     animatePacket e N1_EstablishmentAccept (nf_id amf) (nf_id ue) w"

text \<open>\<open>ue.name.match(/\d+/)?.[0] || '1'\<close>: the first run of decimal digits of the name.\<close>

definition is_digit :: "char \<Rightarrow> bool" where
  "is_digit c = (c \<in> set ''0123456789'')"

definition ueNum :: "string \<Rightarrow> string" where
  "ueNum name =
     (if takeWhile is_digit (dropWhile (\<lambda>c. \<not> is_digit c) name) = [] then ''1''
      else takeWhile is_digit (dropWhile (\<lambda>c. \<not> is_digit c) name))"

definition pool_gateway :: "nf \<Rightarrow> string" where
  \<comment> \<open>\<open>upf.config.tun0Interface?.gatewayIP || '10.0.0.1'\<close>\<close>
  "pool_gateway upf =
     (case tun0Interface (config upf) of
        None \<Rightarrow> ''10.0.0.1''
      | Some tun0 \<Rightarrow> if gatewayIP tun0 = [] then ''10.0.0.1'' else gatewayIP tun0)"

text \<open>The terminal object after the session has been committed to its configuration.\<close>

definition commit_ue_config :: "env \<Rightarrow> nf \<Rightarrow> nf \<Rightarrow> session \<Rightarrow> nf" where
  "commit_ue_config e ue upf s =
     ue\<lparr>config := (config ue)\<lparr>
        pduSession := Some \<lparr>ps_sessionId = pduSessionId s, ps_upfId = nf_id upf,
                            ps_assignedIP = assignedIP s, ps_status = ''established'',
                            ps_establishedAt = env_now e\<rparr>,
        pduSessionState := Some ACTIVE,
        tunInterface := Some \<lparr>tun_name = ''tun_ue'' @ ueNum (nf_name ue),
                              tun_ipAddress = assignedIP s, tun_netmask = ''255.255.255.0'',
                              tun_destination = assignedIP s, tun_gateway = pool_gateway upf,
                              tun_mtu = 1500,
                              tun_flags = ''UP,POINTOPOINT,RUNNING,NOARP,MULTICAST'',
                              tun_createdAt = env_now e\<rparr>\<rparr>\<rparr>"

text \<open>The body of the \<open>try\<close> block of \<open>establishPDUSession\<close>.\<close>

definition establish_steps ::
  "env \<Rightarrow> world \<Rightarrow> string \<Rightarrow> nf \<Rightarrow> nf \<Rightarrow> nf \<Rightarrow> nf \<Rightarrow> (msg \<times> world) + world" where
  "establish_steps e w ueId ue amf smf upf =
     (case sendN1EstablishmentRequest e ue amf
             (modify_session w ueId (\<lambda>s. s\<lparr>pduSessionId := Some (env_random_sid e + 1)\<rparr>)) of
        Inl x \<Rightarrow> Inl x
      | Inr w1 \<Rightarrow>
     (case sendNsmfPDUSessionCreate e amf smf w1 of
        Inl x \<Rightarrow> Inl x
      | Inr w2 \<Rightarrow>
     (case sendN4SessionEstablishment e smf upf ue w2 of
        Inl x \<Rightarrow> Inl x
      | Inr ((ueIp, tid, upf'), w3) \<Rightarrow>
     (case sendPDUSessionAccept e smf amf
             (modify_session w3 ueId
                (\<lambda>s. s\<lparr>assignedIP := Some ueIp, tunnelId := Some tid, upfId := Some (nf_id upf')\<rparr>)) of
        Inl x \<Rightarrow> Inl x
      | Inr w4 \<Rightarrow>
     (case sendN1SessionAccept e amf ue w4 of
        Inl x \<Rightarrow> Inl x
      | Inr w5 \<Rightarrow>
          Inr (modify_session
                 (w5\<lparr>w_store := updateNF (w_store w5) ueId
                                   (commit_ue_config e ue upf' (fst (getSession w5 ueId)))\<rparr>)
                 ueId (\<lambda>s. s\<lparr>state := ACTIVE, createdAt := Some (env_now e)\<rparr>)))))))"

definition establishPDUSession :: "env \<Rightarrow> world \<Rightarrow> string \<Rightarrow> bool \<times> world" where
  "establishPDUSession e w ueId =
     (case getSession w ueId of
        (session, w0) \<Rightarrow>
          if state session = ACTIVE then (True, w0)
          else if state session = ESTABLISHING then (False, w0)
          else
            (case validatePrerequisites (w_store w0) ueId of
               Invalid err \<Rightarrow> (False, w0)
             | Valid ue amf smf upf \<Rightarrow>
                 (case establish_steps e
                         (modify_session w0 ueId (\<lambda>s. s\<lparr>state := ESTABLISHING\<rparr>))
                         ueId ue amf smf upf of
                    Inl (err, w1) \<Rightarrow> (False, modify_session w1 ueId (\<lambda>s. s\<lparr>state := IDLE\<rparr>))
                  | Inr w1 \<Rightarrow> (True, w1))))"

subsection \<open>Release\<close>

definition sendN1ReleaseRequest :: "env \<Rightarrow> nf \<Rightarrow> nf \<Rightarrow> world \<Rightarrow> (msg \<times> world) + world" where
  "sendN1ReleaseRequest e ue amf w = animatePacket e N1_ReleaseRequest (nf_id ue) (nf_id amf) w"

definition sendNsmfPDUSessionRelease :: "env \<Rightarrow> nf \<Rightarrow> nf \<Rightarrow> world \<Rightarrow> (msg \<times> world) + world" where
  "sendNsmfPDUSessionRelease e amf smf w =
     animatePacket e Nsmf_PDUSession_Release (nf_id amf) (nf_id smf) w"

definition sendN4SessionRelease :: "env \<Rightarrow> nf \<Rightarrow> nf \<Rightarrow> world \<Rightarrow> (msg \<times> world) + world" where
  "sendN4SessionRelease e smf upf w =
     (case animatePacket e N4_ReleaseRequest (nf_id smf) (nf_id upf) w of
        Inl x \<Rightarrow> Inl x
      | Inr w1 \<Rightarrow> animatePacket e N4_ReleaseResponse (nf_id upf) (nf_id smf) w1)"

definition sendReleaseConfirmation :: "env \<Rightarrow> nf \<Rightarrow> nf \<Rightarrow> world \<Rightarrow> (msg \<times> world) + world" where
  "sendReleaseConfirmation e smf amf w =
     animatePacket e ReleaseConfirmation (nf_id smf) (nf_id amf) w"

definition sendN1ReleaseComplete :: "env \<Rightarrow> nf \<Rightarrow> nf \<Rightarrow> world \<Rightarrow> (msg \<times> world) + world" where
  "sendN1ReleaseComplete e amf ue w =
     animatePacket e N1_ReleaseComplete (nf_id amf) (nf_id ue) w"

text \<open>The five awaited steps of the \<open>try\<close> block of \<open>releasePDUSession\<close>.\<close>

definition release_steps ::
  "env \<Rightarrow> world \<Rightarrow> nf \<Rightarrow> nf \<Rightarrow> nf \<Rightarrow> nf \<Rightarrow> (msg \<times> world) + world" where
  "release_steps e w ue amf smf upf =
     (case sendN1ReleaseRequest e ue amf w of
        Inl x \<Rightarrow> Inl x
      | Inr w1 \<Rightarrow>
     (case sendNsmfPDUSessionRelease e amf smf w1 of
        Inl x \<Rightarrow> Inl x
      | Inr w2 \<Rightarrow>
     (case sendN4SessionRelease e smf upf w2 of
        Inl x \<Rightarrow> Inl x
      | Inr w3 \<Rightarrow>
     (case sendReleaseConfirmation e smf amf w3 of
        Inl x \<Rightarrow> Inl x
      | Inr w4 \<Rightarrow> sendN1ReleaseComplete e amf ue w4))))"

definition truthy :: "string option \<Rightarrow> bool" where
  \<comment> \<open>a string-or-null field used as a condition\<close>
  "truthy x = (case x of None \<Rightarrow> False | Some s \<Rightarrow> s \<noteq> [])"

text \<open>The first block of \<open>cleanupSession\<close>: the terminal's entries leave the gateway's mapping.\<close>

definition free_ip :: "store \<Rightarrow> session \<Rightarrow> string \<Rightarrow> store" where
  "free_ip st session ueId =
     (if truthy (upfId session) \<and> truthy (assignedIP session) then
        (case getNFById st (the (upfId session)) of
           None \<Rightarrow> st
         | Some upf \<Rightarrow>
             (case tun0Interface (config upf) of
                None \<Rightarrow> st
              | Some tun0 \<Rightarrow>
                  (case assignedIPs tun0 of
                     None \<Rightarrow> st
                   | Some l \<Rightarrow>
                       updateNF st (the (upfId session))
                         (upf\<lparr>config := (config upf)\<lparr>tun0Interface :=
                            Some (tun0\<lparr>assignedIPs :=
                              Some (filter (\<lambda>a. a_ueId a \<noteq> ueId) l)\<rparr>)\<rparr>\<rparr>))))
      else st)"

definition clear_ue_config :: "nf \<Rightarrow> nf" where
  "clear_ue_config ue =
     ue\<lparr>config := (config ue)\<lparr>pduSession := None, tunInterface := None,
                               pduSessionState := Some RELEASED\<rparr>\<rparr>"

definition cleanupSession :: "world \<Rightarrow> string \<Rightarrow> world" where
  "cleanupSession w ueId =
     (case getSession w ueId of
        (session, w0) \<Rightarrow>
          modify_session
            (w0\<lparr>w_store :=
                  (case getNFById (w_store w0) ueId of
                     None \<Rightarrow> free_ip (w_store w0) session ueId
                   | Some ue \<Rightarrow>
                       updateNF (free_ip (w_store w0) session ueId) ueId (clear_ue_config ue))\<rparr>)
            ueId
            (\<lambda>s. s\<lparr>state := RELEASED, pduSessionId := None, assignedIP := None,
                    tunnelId := None, upfId := None, createdAt := None\<rparr>))"

definition releasePDUSession :: "env \<Rightarrow> world \<Rightarrow> string \<Rightarrow> bool \<times> world" where
  "releasePDUSession e w ueId =
     (case getSession w ueId of
        (session, w0) \<Rightarrow>
          if state session \<noteq> ACTIVE then (False, w0)
          else
            (case getNFById (w_store w0) ueId of
               None \<Rightarrow> (False, w0)
             | Some ue \<Rightarrow>
                 (case validatePrerequisites (w_store w0) ueId of
                    Invalid err \<Rightarrow> (True, cleanupSession w0 ueId)
                  | Valid ue' amf smf upf \<Rightarrow>
                      (case release_steps e
                              (modify_session w0 ueId (\<lambda>s. s\<lparr>state := RELEASING\<rparr>))
                              ue amf smf upf of
                         Inl (err, w1) \<Rightarrow> (False, cleanupSession w1 ueId)
                       | Inr w1 \<Rightarrow> (True, cleanupSession w1 ueId)))))"

section \<open>The packet animator\<close>

text \<open>
  The \<open>PacketAnimator\<close> class. Its state is the array of live packets, the packet counter,
  the running flag and the identifier of the animation frame it requested last. The
  browser's side of \<open>requestAnimationFrame\<close> is part of the state too: the identifiers of
  the frames that have been requested and have neither fired nor been cancelled, and the
  identifier generator. The continuation \<open>onComplete\<close> of a packet is the \<open>resolve\<close> function
  of the promise that \<open>sendPacket\<close> returned; calling it is recorded by appending the
  packet's identifier to \<open>completed\<close>. Each pass of \<open>updatePackets\<close> is recorded in \<open>ticks\<close>
  with the number of live packets it found. Rendering is not modelled.

  The coordinates, the progress and the speed are JavaScript numbers, that is finite
  doubles, which are rationals; an arithmetic operation on doubles yields the exact result
  rounded to a double. The rounding is the parameter \<open>fl\<close> of the model, applied to the exact
  result of every addition, subtraction, multiplication and division of the source on
  such numbers. Segment indices and counters are small integers, on which the arithmetic
  is exact.
\<close>

record packet =
  pkt_id :: nat
  pkt_sourceId :: string
  pkt_targetId :: string
  pkt_path :: "(rat \<times> rat) list"
  currentSegment :: nat
  segmentProgress :: rat
  pkt_interface :: string
  pkt_direction :: string
  pkt_progress :: rat
  pkt_speed :: rat
  pkt_color :: string
  currentX :: rat
  currentY :: rat

record animator =
  packets :: "packet list"
  packetCounter :: nat
  isRunning :: bool
  animationFrameId :: "nat option"
  pendingFrames :: "nat list"
  frameCounter :: nat
  completed :: "nat list"
  ticks :: "nat list"

record send_options =
  opt_sourceId :: string
  opt_targetId :: string
  opt_interface :: string
  opt_direction :: string
  opt_speed :: "rat option"
  opt_error :: bool

datatype promise = ResolvedNow | OnComplete nat

definition new_animator :: animator where
  "new_animator = \<lparr>packets = [], packetCounter = 0, isRunning = False, animationFrameId = None,
                     pendingFrames = [], frameCounter = 0, completed = [], ticks = []\<rparr>"

definition defaultSpeed :: "(rat \<Rightarrow> rat) \<Rightarrow> rat" where
  \<comment> \<open>the literal \<open>0.012\<close> denotes the double next to it\<close>
  "defaultSpeed fl = fl (12 / 1000)"

subsection \<open>Path planning\<close>

definition getNFBusConnectionPoint :: "nf \<Rightarrow> bus \<Rightarrow> rat \<times> rat" where
  "getNFBusConnectionPoint n b = (if bus_horizontal b then (nf_x n, bus_y b) else (bus_x b, nf_y n))"

text \<open>The nested loops that look for a common bus: the first bus attachment of the source
  whose bus the target is attached to as well and that the store knows.\<close>

fun findCommonBus :: "store \<Rightarrow> bus_connection list \<Rightarrow> bus_connection list \<Rightarrow> bus option" where
  "findCommonBus st [] tbcs = None"
| "findCommonBus st (sbc # sbcs) tbcs =
     (if list_ex (\<lambda>tbc. bc_busId sbc = bc_busId tbc) tbcs then
        (case getBusById st (bc_busId sbc) of
           None \<Rightarrow> findCommonBus st sbcs tbcs
         | Some b \<Rightarrow> Some b)
      else findCommonBus st sbcs tbcs)"

definition calculatePath :: "(rat \<Rightarrow> rat) \<Rightarrow> store \<Rightarrow> nf \<Rightarrow> nf \<Rightarrow> (rat \<times> rat) list" where
  "calculatePath fl st source target =
     [(nf_x source, nf_y source)] @
     (case findCommonBus st (getBusConnectionsForNF st (nf_id source))
             (getBusConnectionsForNF st (nf_id target)) of
        None \<Rightarrow> []
      | Some commonBus \<Rightarrow>
          [getNFBusConnectionPoint source commonBus] @
          (if bus_horizontal commonBus then
             (if \<bar>fl (fst (getNFBusConnectionPoint source commonBus) -
                      fst (getNFBusConnectionPoint target commonBus))\<bar> > 10
              then [(fst (getNFBusConnectionPoint target commonBus),
                     snd (getNFBusConnectionPoint source commonBus))]
              else [])
           else
             (if \<bar>fl (snd (getNFBusConnectionPoint source commonBus) -
                      snd (getNFBusConnectionPoint target commonBus))\<bar> > 10
              then [(fst (getNFBusConnectionPoint source commonBus),
                     snd (getNFBusConnectionPoint target commonBus))]
              else [])) @
          [getNFBusConnectionPoint target commonBus]) @
     [(nf_x target, nf_y target)]"

subsection \<open>The tick\<close>

text \<open>
  The \<open>while\<close> loop of \<open>updatePackets\<close> that carries the progress of a finished segment
  into the next one. \<open>n\<close> is \<open>path.length\<close>; the comparison \<open>seg < path.length - 1\<close> is on
  integers.
\<close>

function carry :: "(rat \<Rightarrow> rat) \<Rightarrow> nat \<Rightarrow> rat \<Rightarrow> nat \<Rightarrow> rat \<times> nat" where
  "carry fl n sp seg =
     (if sp \<ge> 1 \<and> int seg < int n - 1 then carry fl n (fl (sp - 1)) (seg + 1) else (sp, seg))"
  by pat_completeness auto
termination
  by (relation "measure (\<lambda>(fl, n, sp, seg). n - seg)") auto

declare carry.simps [simp del]

text \<open>A point of the path; a read outside the path does not occur for the paths of
  \<open>calculatePath\<close>, which have at least two points.\<close>

definition point_at :: "(rat \<times> rat) list \<Rightarrow> nat \<Rightarrow> rat \<times> rat" where
  "point_at path i = (if i < length path then path ! i else (0, 0))"

definition reached_end :: "packet \<Rightarrow> bool" where
  \<comment> \<open>\<open>seg >= path.length - 1 && packet.segmentProgress >= 1.0\<close>, read after the loop\<close>
  "reached_end p =
     (int (currentSegment p) \<ge> int (length (pkt_path p)) - 1 \<and> segmentProgress p \<ge> 1)"

text \<open>The body of the \<open>forEach\<close> over the packets, up to the test for the final destination:
  the progress is advanced by the speed and carried over the segments.\<close>

definition advance :: "(rat \<Rightarrow> rat) \<Rightarrow> packet \<Rightarrow> packet" where
  "advance fl p =
     (case carry fl (length (pkt_path p)) (fl (segmentProgress p + pkt_speed p))
             (currentSegment p) of
        (sp, seg) \<Rightarrow> p\<lparr>segmentProgress := sp, currentSegment := seg\<rparr>)"

text \<open>The rest of the body: the position and the overall progress.\<close>

definition place :: "(rat \<Rightarrow> rat) \<Rightarrow> packet \<Rightarrow> packet" where
  "place fl p =
     (let n = length (pkt_path p);
          q = (if reached_end p then
                 p\<lparr>segmentProgress := 1,
                   currentX := fst (point_at (pkt_path p) (n - 1)),
                   currentY := snd (point_at (pkt_path p) (n - 1))\<rparr>
               else
                 p\<lparr>currentX := fl (fst (point_at (pkt_path p) (currentSegment p)) +
                        fl (fl (fst (point_at (pkt_path p) (min (currentSegment p + 1) (n - 1))) -
                                fst (point_at (pkt_path p) (currentSegment p))) *
                            segmentProgress p)),
                   currentY := fl (snd (point_at (pkt_path p) (currentSegment p)) +
                        fl (fl (snd (point_at (pkt_path p) (min (currentSegment p + 1) (n - 1))) -
                                snd (point_at (pkt_path p) (currentSegment p))) *
                            segmentProgress p))\<rparr>)
      in q\<lparr>pkt_progress :=
            (if int n - 1 > 0
             then fl (fl (of_nat (currentSegment q) + segmentProgress q) / of_int (int n - 1))
             else 1)\<rparr>)"

text \<open>The second \<open>forEach\<close>: each completed packet is taken out of the live array (the first
  element that is this packet) and its continuation is called.\<close>

fun remove_packet :: "nat \<Rightarrow> packet list \<Rightarrow> packet list" where
  "remove_packet i [] = []"
| "remove_packet i (p # ps) = (if pkt_id p = i then ps else p # remove_packet i ps)"

fun complete_all :: "packet list \<Rightarrow> animator \<Rightarrow> animator" where
  "complete_all [] a = a"
| "complete_all (p # ps) a =
     complete_all ps
       (a\<lparr>packets := remove_packet (pkt_id p) (packets a),
          completed := completed a @ [pkt_id p]\<rparr>)"

definition cancelAnimationFrame :: "nat \<Rightarrow> animator \<Rightarrow> animator" where
  "cancelAnimationFrame f a = a\<lparr>pendingFrames := filter (\<lambda>g. g \<noteq> f) (pendingFrames a)\<rparr>"

definition stopAnimation :: "animator \<Rightarrow> animator" where
  "stopAnimation a =
     (case animationFrameId a of
        None \<Rightarrow> a\<lparr>isRunning := False\<rparr>
      | Some f \<Rightarrow>
          if f = 0 then a\<lparr>isRunning := False\<rparr>
          else (cancelAnimationFrame f (a\<lparr>isRunning := False\<rparr>))\<lparr>animationFrameId := None\<rparr>)"

definition updatePackets :: "(rat \<Rightarrow> rat) \<Rightarrow> animator \<Rightarrow> animator" where
  "updatePackets fl a =
     (let a1 = a\<lparr>packets := map (place fl \<circ> advance fl) (packets a),
                 ticks := ticks a @ [length (packets a)]\<rparr>;
          a2 = complete_all (filter (reached_end \<circ> advance fl) (packets a)) a1
      in if packets a2 = [] then stopAnimation a2 else a2)"

definition requestAnimationFrame :: "animator \<Rightarrow> animator" where
  \<comment> \<open>\<open>this.animationFrameId = requestAnimationFrame(...)\<close>: the browser issues a fresh
     non-zero identifier\<close>
  "requestAnimationFrame a =
     a\<lparr>frameCounter := frameCounter a + 1,
       pendingFrames := pendingFrames a @ [frameCounter a + 1],
       animationFrameId := Some (frameCounter a + 1)\<rparr>"

definition animate :: "(rat \<Rightarrow> rat) \<Rightarrow> animator \<Rightarrow> animator" where
  "animate fl a = (if \<not> isRunning a then a else requestAnimationFrame (updatePackets fl a))"

definition startAnimation :: "(rat \<Rightarrow> rat) \<Rightarrow> animator \<Rightarrow> animator" where
  "startAnimation fl a = (if isRunning a then a else animate fl (a\<lparr>isRunning := True\<rparr>))"

definition init :: "(rat \<Rightarrow> rat) \<Rightarrow> animator \<Rightarrow> animator" where
  "init fl a = startAnimation fl a"

definition packet_color :: "send_options \<Rightarrow> string" where
  "packet_color opts =
     (if opt_direction opts = ''response'' then ''#f39c12''
      else if opt_interface opts = ''N4'' then ''#27ae60''
      else if opt_error opts then ''#e74c3c''
      else ''#3498db'')"

definition option_speed :: "(rat \<Rightarrow> rat) \<Rightarrow> send_options \<Rightarrow> rat" where
  \<comment> \<open>\<open>options.speed || this.defaultSpeed\<close>\<close>
  "option_speed fl opts =
     (case opt_speed opts of
        None \<Rightarrow> defaultSpeed fl
      | Some v \<Rightarrow> if v = 0 then defaultSpeed fl else v)"

definition sendPacket ::
  "(rat \<Rightarrow> rat) \<Rightarrow> store \<Rightarrow> send_options \<Rightarrow> animator \<Rightarrow> promise \<times> animator" where
  "sendPacket fl st opts a =
     (case getNFById st (opt_sourceId opts) of
        None \<Rightarrow> (ResolvedNow, a)
      | Some source \<Rightarrow>
          (case getNFById st (opt_targetId opts) of
             None \<Rightarrow> (ResolvedNow, a)
           | Some target \<Rightarrow>
               (let path = calculatePath fl st source target;
                    pkt = \<lparr>pkt_id = packetCounter a + 1,
                           pkt_sourceId = opt_sourceId opts, pkt_targetId = opt_targetId opts,
                           pkt_path = path, currentSegment = 0, segmentProgress = 0,
                           pkt_interface = opt_interface opts,
                           pkt_direction = opt_direction opts, pkt_progress = 0,
                           pkt_speed = option_speed fl opts, pkt_color = packet_color opts,
                           currentX = fst (point_at path 0), currentY = snd (point_at path 0)\<rparr>;
                    a1 = a\<lparr>packetCounter := packetCounter a + 1, packets := packets a @ [pkt]\<rparr>
                in (OnComplete (packetCounter a + 1),
                    if \<not> isRunning a1 then startAnimation fl a1 else a1))))"

text \<open>
  What happens to an animator: it is initialised, a packet is submitted, or the browser
  fires an animation frame that is pending (which calls \<open>animate\<close>).
\<close>

datatype event = Init | Send store send_options | Frame nat

fun step :: "(rat \<Rightarrow> rat) \<Rightarrow> event \<Rightarrow> animator \<Rightarrow> animator" where
  "step fl Init a = init fl a"
| "step fl (Send st opts) a = snd (sendPacket fl st opts a)"
| "step fl (Frame f) a =
     (if f \<in> set (pendingFrames a)
      then animate fl (a\<lparr>pendingFrames := filter (\<lambda>g. g \<noteq> f) (pendingFrames a)\<rparr>)
      else a)"

fun run :: "(rat \<Rightarrow> rat) \<Rightarrow> event list \<Rightarrow> animator \<Rightarrow> animator" where
  "run fl [] a = a"
| "run fl (ev # evs) a = run fl evs (step fl ev a)"

section \<open>The vocabulary of the specification\<close>

text \<open>
  The notions in which the specification states the reachability and validation rules,
  defined on the store alone so that they can be compared with what the code computes.
\<close>

definition linked :: "store \<Rightarrow> string \<Rightarrow> string \<Rightarrow> bool" where
  \<comment> \<open>a link with \<open>a\<close> at one end and \<open>b\<close> at an end\<close>
  "linked st a b = list_ex (\<lambda>c. (sourceId c = a \<or> targetId c = a) \<and>
                                 (sourceId c = b \<or> targetId c = b)) (connections st)"

definition common_bus :: "store \<Rightarrow> string \<Rightarrow> string \<Rightarrow> bool" where
  \<comment> \<open>the attached-bus sets of \<open>a\<close> and \<open>b\<close> intersect\<close>
  "common_bus st a b =
     list_ex (\<lambda>x. list_ex (\<lambda>y. bc_nfId x = a \<and> bc_nfId y = b \<and> bc_busId x = bc_busId y)
                      (busConnections st)) (busConnections st)"

definition is_terminal :: "store \<Rightarrow> string \<Rightarrow> bool" where
  "is_terminal st a = (nf_type_of st a = Some ''UE'')"

definition far_end :: "connection \<Rightarrow> string \<Rightarrow> string" where
  "far_end c a = (if sourceId c = a then targetId c else sourceId c)"

definition radio_units_of :: "store \<Rightarrow> string \<Rightarrow> string list" where
  \<comment> \<open>the radio-unit nodes at the far end of a link of \<open>a\<close>\<close>
  "radio_units_of st a =
     filter (\<lambda>r. nf_type_of st r = Some ''gNB'')
       (map (\<lambda>c. far_end c a)
          (filter (\<lambda>c. sourceId c = a \<or> targetId c = a) (connections st)))"

definition via_radio_unit :: "store \<Rightarrow> string \<Rightarrow> string \<Rightarrow> bool" where
  \<comment> \<open>one level of indirection: a radio unit of \<open>t\<close> is linked to \<open>other\<close> or shares a bus
     with it\<close>
  "via_radio_unit st t other =
     list_ex (\<lambda>r. linked st r other \<or> common_bus st r other) (radio_units_of st t)"

definition claimed_areConnected :: "store \<Rightarrow> string \<Rightarrow> string \<Rightarrow> bool" where
  \<comment> \<open>the three rules as the specification words them: the third applies when exactly
     one of the two nodes is a terminal, whichever it is\<close>
  "claimed_areConnected st a b =
     (linked st a b \<or> common_bus st a b \<or>
      (is_terminal st a \<and> \<not> is_terminal st b \<and> via_radio_unit st a b) \<or>
      (is_terminal st b \<and> \<not> is_terminal st a \<and> via_radio_unit st b a))"

definition store_wf :: "store \<Rightarrow> bool" where
  \<comment> \<open>Modelled from the spec: deleting a node removes every link and bus attachment that
     refers to it, so no link or attachment of the store names a missing node (the store
     is missing).\<close>
  "store_wf st =
     ((\<forall>c \<in> set (connections st).
         getNFById st (sourceId c) \<noteq> None \<and> getNFById st (targetId c) \<noteq> None) \<and>
      (\<forall>b \<in> set (busConnections st). getNFById st (bc_nfId b) \<noteq> None))"



section \<open>Observations on the world\<close>

text \<open>
  The allocation mapping of the gateway \<open>g\<close> (none when the node, its pool interface or
  the mapping is absent), and what a test would read off the store and the session
  table after a lifecycle operation.
\<close>

definition pool_mapping :: "store \<Rightarrow> string \<Rightarrow> assignment list option" where
  "pool_mapping st g =
     (case getNFById st g of
        None \<Rightarrow> None
      | Some upf \<Rightarrow> (case tun0Interface (config upf) of None \<Rightarrow> None | Some tun0 \<Rightarrow> assignedIPs tun0))"

definition address_allocated :: "store \<Rightarrow> string \<Rightarrow> string \<Rightarrow> bool" where
  "address_allocated st g ip =
     (case pool_mapping st g of None \<Rightarrow> False | Some l \<Rightarrow> list_ex (\<lambda>a. a_ip a = ip) l)"

definition holds_allocation :: "store \<Rightarrow> string \<Rightarrow> string \<Rightarrow> bool" where
  "holds_allocation st g ueId =
     (case pool_mapping st g of None \<Rightarrow> False | Some l \<Rightarrow> list_ex (\<lambda>a. a_ueId a = ueId) l)"

definition other_holder :: "store \<Rightarrow> string \<Rightarrow> string \<Rightarrow> string \<Rightarrow> bool" where
  "other_holder st g ip ueId =
     (case pool_mapping st g of
        None \<Rightarrow> False
      | Some l \<Rightarrow> list_ex (\<lambda>a. a_ip a = ip \<and> a_ueId a \<noteq> ueId) l)"

definition ue_config_cleared :: "store \<Rightarrow> string \<Rightarrow> bool" where
  "ue_config_cleared st ueId =
     (case getNFById st ueId of
        None \<Rightarrow> False
      | Some ue \<Rightarrow> pduSession (config ue) = None \<and> tunInterface (config ue) = None \<and>
                   pduSessionState (config ue) = Some RELEASED)"

definition session_released :: "world \<Rightarrow> string \<Rightarrow> bool" where
  "session_released w ueId =
     (case w_sessions w ueId of
        None \<Rightarrow> False
      | Some s \<Rightarrow> state s = RELEASED \<and> pduSessionId s = None \<and> assignedIP s = None \<and>
                  tunnelId s = None \<and> upfId s = None \<and> createdAt s = None)"

definition release_msgs :: "msg list" where
  "release_msgs = [N1_ReleaseRequest, Nsmf_PDUSession_Release, N4_ReleaseRequest,
                   N4_ReleaseResponse, ReleaseConfirmation, N1_ReleaseComplete]"

definition pool_of :: "store \<Rightarrow> string \<Rightarrow> tun0_iface option" where
  "pool_of st g = (case getNFById st g of None \<Rightarrow> None | Some upf \<Rightarrow> tun0Interface (config upf))"

definition session_of :: "world \<Rightarrow> string \<Rightarrow> session" where
  "session_of w ueId = fst (getSession w ueId)"

definition establish_msgs :: "msg list" where
  "establish_msgs = [N1_EstablishmentRequest, Nsmf_PDUSession_Create, N4_EstablishmentRequest,
                     N4_EstablishmentResponse, PDU_SessionAccept, N1_EstablishmentAccept]"

text \<open>The session object once the address, the tunnel and the gateway have been written
  to it (its state is still \<open>ESTABLISHING\<close>).\<close>

definition committed_session :: "env \<Rightarrow> session \<Rightarrow> string \<Rightarrow> string \<Rightarrow> session" where
  "committed_session e s ip g =
     s\<lparr>state := ESTABLISHING, pduSessionId := Some (env_random_sid e + 1),
       assignedIP := Some ip,
       tunnelId := Some (''gtp-'' @ string_of_nat (1000 + env_random_tunnel e)),
       upfId := Some g\<rparr>"

definition removeNF :: "store \<Rightarrow> string \<Rightarrow> store" where
  \<comment> \<open>Modelled from the spec: explicit deletion of a node, which removes every link and
     bus attachment that refers to it (the store is missing).\<close>
  "removeNF st i =
     st\<lparr>nfs := filter (\<lambda>n. nf_id n \<noteq> i) (nfs st),
        connections := filter (\<lambda>c. sourceId c \<noteq> i \<and> targetId c \<noteq> i) (connections st),
        busConnections := filter (\<lambda>b. bc_nfId b \<noteq> i) (busConnections st)\<rparr>"

section \<open>Observations on the animator\<close>

text \<open>The identifiers of the live packets, in the order of the array.\<close>

definition live_ids :: "animator \<Rightarrow> nat list" where
  "live_ids a = map pkt_id (packets a)"






section \<open>Scenario topologies\<close>

definition mk_nf :: "string \<Rightarrow> string \<Rightarrow> string \<Rightarrow> string \<Rightarrow> nf_config \<Rightarrow> nf" where
  "mk_nf i nm ty stt c =
     \<lparr>nf_id = i, nf_name = nm, nf_type = ty, nf_status = stt, nf_x = 0, nf_y = 0, config = c\<rparr>"

definition plain_config :: "string \<Rightarrow> nf_config" where
  "plain_config ip = \<lparr>ipAddress = ip, subscriberImsi = [], tun0Interface = None,
     pduSession = None, pduSessionState = None, tunInterface = None\<rparr>"

definition fresh_pool :: tun0_iface where
  "fresh_pool = \<lparr>gatewayIP = ''10.0.0.1'', assignedIPs = Some [], nextAvailableIP = Some 2\<rparr>"

definition gateway_nf :: "tun0_iface \<Rightarrow> nf" where
  "gateway_nf pool = mk_nf ''upf'' ''UPF-1'' ''UPF'' ''stable''
     ((plain_config ''192.168.1.13'')\<lparr>tun0Interface := Some pool\<rparr>)"

definition pool_store :: "tun0_iface \<Rightarrow> store" where
  "pool_store pool = \<lparr>nfs = [gateway_nf pool], connections = [], busConnections = [], buses = []\<rparr>"

definition requester :: "nat \<Rightarrow> nf" where
  "requester k = mk_nf (''ue-'' @ string_of_nat k) (''UE-'' @ string_of_nat k) ''UE'' ''stable''
     ((plain_config ''192.168.1.22'')\<lparr>subscriberImsi := ''001010000000001''\<rparr>)"

text \<open>Consecutive allocations from the gateway \<open>g\<close> of the store, one per requester.\<close>

fun allocate_all :: "store \<Rightarrow> string \<Rightarrow> nf list \<Rightarrow> string list \<times> store" where
  "allocate_all st g [] = ([], st)"
| "allocate_all st g (ue # ues) =
     (case getNFById st g of
        None \<Rightarrow> ([], st)
      | Some upf \<Rightarrow>
          (case allocateUEIP st upf ue 0 of
             (ip, upf', st') \<Rightarrow>
               (case allocate_all st' g ues of (ips, st'') \<Rightarrow> (ip # ips, st''))))"

definition mk_conn :: "string \<Rightarrow> string \<Rightarrow> connection" where
  "mk_conn a b = \<lparr>sourceId = a, targetId = b\<rparr>"

definition amf_node :: nf where
  "amf_node = mk_nf ''amf'' ''AMF-1'' ''AMF'' ''stable'' (plain_config ''192.168.1.11'')"

definition smf_node :: nf where
  "smf_node = mk_nf ''smf'' ''SMF-1'' ''SMF'' ''stable'' (plain_config ''192.168.1.12'')"

definition gnb_node :: nf where
  "gnb_node = mk_nf ''gnb'' ''gNB-1'' ''gNB'' ''stable'' (plain_config ''192.168.1.21'')"

definition ue_node :: nf where
  "ue_node = mk_nf ''ue'' ''UE-1'' ''UE'' ''stable''
     ((plain_config ''192.168.1.22'')\<lparr>subscriberImsi := ''001010000000001''\<rparr>)"

text \<open>
  The scenario of the specification: subnet 192.168.1.0/24 with a stable mobility anchor
  (.11), session anchor (.12) and gateway (.13, with the given pool), a radio unit (.21)
  and a terminal (.22) with credentials; the terminal is linked to the radio unit and the
  radio unit to the mobility anchor.
\<close>

definition scenario_store :: "tun0_iface option \<Rightarrow> store" where
  "scenario_store pool =
     \<lparr>nfs = [amf_node, smf_node,
             mk_nf ''upf'' ''UPF-1'' ''UPF'' ''stable''
               ((plain_config ''192.168.1.13'')\<lparr>tun0Interface := pool\<rparr>),
             gnb_node, ue_node],
      connections = [mk_conn ''ue'' ''gnb'', mk_conn ''gnb'' ''amf''],
      busConnections = [], buses = []\<rparr>"

text \<open>The same topology with the link between radio unit and mobility anchor drawn from
  the mobility anchor.\<close>

definition reversed_link_store :: store where
  "reversed_link_store =
     (scenario_store (Some fresh_pool))
       \<lparr>connections := [mk_conn ''ue'' ''gnb'', mk_conn ''amf'' ''gnb'']\<rparr>"

text \<open>Two terminals on one radio unit.\<close>

definition two_ue_store :: store where
  "two_ue_store =
     \<lparr>nfs = [gnb_node,
             mk_nf ''ue1'' ''UE-1'' ''UE'' ''stable'' (plain_config ''192.168.1.22''),
             mk_nf ''ue2'' ''UE-2'' ''UE'' ''stable'' (plain_config ''192.168.1.23'')],
      connections = [mk_conn ''ue1'' ''gnb'', mk_conn ''ue2'' ''gnb''],
      busConnections = [], buses = []\<rparr>"



definition world0 :: "store \<Rightarrow> world" where
  "world0 st = \<lparr>w_store = st, w_sessions = Map.empty, w_trace = []\<rparr>"

definition quiet_env :: env where
  "quiet_env = \<lparr>env_now = 1000, env_random_sid = 4, env_random_tunnel = 234,
                 env_throws = (\<lambda>m. False)\<rparr>"

definition throwing_env :: "msg \<Rightarrow> env" where
  "throwing_env m0 = quiet_env\<lparr>env_throws := (\<lambda>m. m = m0)\<rparr>"

text \<open>Pools with the counter at the last address, past it, and past it while another
  terminal holds \<open>10.0.0.2\<close>; the world after the scenario's establishment and after its
  release; a world in which a node has been deleted.\<close>

definition last_pool :: tun0_iface where
  "last_pool = \<lparr>gatewayIP = ''10.0.0.1'', assignedIPs = Some [], nextAvailableIP = Some 14\<rparr>"

definition spent_pool :: tun0_iface where
  "spent_pool = \<lparr>gatewayIP = ''10.0.0.1'', assignedIPs = Some [], nextAvailableIP = Some 15\<rparr>"

definition held_pool :: tun0_iface where
  "held_pool = \<lparr>gatewayIP = ''10.0.0.1'',
       assignedIPs = Some [\<lparr>a_ueId = ''ue-a'', a_ueName = ''UE-A'', a_ip = ''10.0.0.2'',
                            a_assignedAt = 0\<rparr>],
       nextAvailableIP = Some 15\<rparr>"

text \<open>A pool whose counter is 1, and a pool without a counter in which two other
  terminals hold \<open>10.0.0.3\<close> and \<open>10.0.0.2\<close>.\<close>

definition low_pool :: tun0_iface where
  "low_pool = \<lparr>gatewayIP = ''10.0.0.1'', assignedIPs = Some [], nextAvailableIP = Some 1\<rparr>"

definition crowded_pool :: tun0_iface where
  "crowded_pool = \<lparr>gatewayIP = ''10.0.0.1'',
       assignedIPs = Some [\<lparr>a_ueId = ''ue-a'', a_ueName = ''UE-A'', a_ip = ''10.0.0.3'',
                            a_assignedAt = 0\<rparr>,
                           \<lparr>a_ueId = ''ue-b'', a_ueName = ''UE-B'', a_ip = ''10.0.0.2'',
                            a_assignedAt = 0\<rparr>],
       nextAvailableIP = None\<rparr>"

definition established :: "tun0_iface \<Rightarrow> world" where
  "established P = snd (establishPDUSession quiet_env (world0 (scenario_store (Some P))) ''ue'')"

definition released :: "tun0_iface \<Rightarrow> world" where
  "released P = snd (releasePDUSession quiet_env (established P) ''ue'')"

definition node_deleted :: "world \<Rightarrow> string \<Rightarrow> world" where
  "node_deleted w i = w\<lparr>w_store := removeNF (w_store w) i\<rparr>"

text \<open>
  A packet from the mobility anchor to the session anchor of the scenario that covers a
  whole segment with each pass, the same request to a node that the store does not know,
  and the animator after the first of the two has been submitted.
\<close>

definition fast_options :: send_options where
  "fast_options = \<lparr>opt_sourceId = ''amf'', opt_targetId = ''smf'', opt_interface = ''N11'',
     opt_direction = ''request'', opt_speed = Some 1, opt_error = False\<rparr>"

definition lost_options :: send_options where
  "lost_options = fast_options\<lparr>opt_targetId := ''ghost''\<rparr>"

definition exact :: "rat \<Rightarrow> rat" where
  \<comment> \<open>arithmetic in which no result needs rounding\<close>
  "exact x = x"

definition sent_once :: animator where
  "sent_once = run exact [Send (scenario_store None) fast_options] new_animator"

section \<open>Properties of the address allocation\<close>

lemma list_ex_taken:
  "list_ex (\<lambda>a. a_ip a = candidateIP k) (assigned_list tun0) = taken tun0 k"
  by (force simp: taken_def list_ex_iff)

lemma loop_found:
  "n \<le> k \<Longrightarrow> k \<le> 14 \<Longrightarrow> \<not> taken tun0 k \<Longrightarrow> (\<forall>j. n \<le> j \<and> j < k \<longrightarrow> taken tun0 j) \<Longrightarrow>
   allocateUEIP_loop st upf tun0 ue now n =
     (candidateIP k, record_allocation upf tun0 ue now k,
      updateNF st (nf_id upf) (record_allocation upf tun0 ue now k))"
proof (induction st upf tun0 ue now n rule: allocateUEIP_loop.induct)
  case (1 st upf tun0 ue now nextIP)
  show ?case
  proof (cases "nextIP = k")
    case True
    with "1.prems" show ?thesis
      by (subst allocateUEIP_loop.simps) (simp add: list_ex_taken record_allocation_def Let_def)
  next
    case False
    with "1.prems" have lt: "nextIP < k" by simp
    with "1.prems" have tk: "taken tun0 nextIP" by simp
    have "allocateUEIP_loop st upf tun0 ue now nextIP =
          allocateUEIP_loop st upf tun0 ue now (nextIP + 1)"
      using tk lt "1.prems"(2) by (subst allocateUEIP_loop.simps) (simp add: list_ex_taken)
    also have "\<dots> = (candidateIP k, record_allocation upf tun0 ue now k,
      updateNF st (nf_id upf) (record_allocation upf tun0 ue now k))"
      using "1.IH" lt tk "1.prems" by (simp add: list_ex_taken)
    finally show ?thesis .
  qed
qed

lemma loop_exhausted:
  "(\<forall>j. n \<le> j \<and> j \<le> 14 \<longrightarrow> taken tun0 j) \<Longrightarrow>
   allocateUEIP_loop st upf tun0 ue now n = (''10.0.0.2'', upf, st)"
proof (induction st upf tun0 ue now n rule: allocateUEIP_loop.induct)
  case (1 st upf tun0 ue now nextIP)
  show ?case
  proof (cases "nextIP \<le> 14")
    case True
    with "1.prems" have tk: "taken tun0 nextIP" by simp
    have "allocateUEIP_loop st upf tun0 ue now nextIP =
          allocateUEIP_loop st upf tun0 ue now (nextIP + 1)"
      using tk True by (subst allocateUEIP_loop.simps) (simp add: list_ex_taken)
    also have "\<dots> = (''10.0.0.2'', upf, st)"
      using "1.IH" True tk "1.prems" by (simp add: list_ex_taken)
    finally show ?thesis .
  next
    case False
    then show ?thesis by (subst allocateUEIP_loop.simps) simp
  qed
qed

lemma allocateUEIP_found:
  "tun0Interface (config upf) = Some tun0 \<Longrightarrow> scan_start tun0 \<le> k \<Longrightarrow> k \<le> 14 \<Longrightarrow>
   \<not> taken tun0 k \<Longrightarrow> (\<forall>j. scan_start tun0 \<le> j \<and> j < k \<longrightarrow> taken tun0 j) \<Longrightarrow>
   allocateUEIP st upf ue now =
     (candidateIP k, record_allocation upf tun0 ue now k,
      updateNF st (nf_id upf) (record_allocation upf tun0 ue now k))"
  using loop_found [of "scan_start tun0" k tun0 st upf ue now]
  by (simp add: allocateUEIP_def scan_start_def)

lemma allocateUEIP_exhausted:
  "tun0Interface (config upf) = Some tun0 \<Longrightarrow>
   (\<forall>j. scan_start tun0 \<le> j \<and> j \<le> 14 \<longrightarrow> taken tun0 j) \<Longrightarrow>
   allocateUEIP st upf ue now = (''10.0.0.2'', upf, st)"
  using loop_exhausted [of "scan_start tun0" tun0 st upf ue now]
  by (simp add: allocateUEIP_def scan_start_def)

lemma allocate_14_times:
  "fst (allocate_all (pool_store fresh_pool) ''upf'' (map requester [1 ..< 15])) =
     [''10.0.0.2'', ''10.0.0.3'', ''10.0.0.4'', ''10.0.0.5'', ''10.0.0.6'', ''10.0.0.7'',
      ''10.0.0.8'', ''10.0.0.9'', ''10.0.0.10'', ''10.0.0.11'', ''10.0.0.12'', ''10.0.0.13'',
      ''10.0.0.14'', ''10.0.0.2'']"
  by code_simp

lemma mapping_entries:
  "assignedIPs tun0 = Some m \<or> assignedIPs tun0 = None \<and> m = [] \<Longrightarrow> assigned_list tun0 = m"
  by (auto simp: assigned_list_def)

lemma counter_start:
  "nextAvailableIP tun0 = Some n \<and> 2 \<le> n \<or> (nextAvailableIP tun0 = None \<or> nextAvailableIP tun0 = Some 0) \<and> n = 2
   \<Longrightarrow> scan_start tun0 = n"
  by (auto simp: scan_start_def)

lemma loop_in_range:
  "2 \<le> n \<Longrightarrow> \<exists>k. 2 \<le> k \<and> k \<le> 14 \<and> fst (allocateUEIP_loop st upf tun0 ue now n) = candidateIP k"
proof (induction st upf tun0 ue now n rule: allocateUEIP_loop.induct)
  case (1 st upf tun0 ue now nextIP)
  show ?case
  proof (cases "nextIP \<le> 14")
    case False
    have "candidateIP 2 = ''10.0.0.2''" by code_simp
    with False show ?thesis
      by (subst allocateUEIP_loop.simps) (auto intro: exI [of _ 2])
  next
    case True
    show ?thesis
    proof (cases "taken tun0 nextIP")
      case False
      with True "1.prems" show ?thesis
        by (subst allocateUEIP_loop.simps) (auto simp: list_ex_taken Let_def)
    next
      case t: True
      have "allocateUEIP_loop st upf tun0 ue now nextIP =
            allocateUEIP_loop st upf tun0 ue now (nextIP + 1)"
        using t True by (subst allocateUEIP_loop.simps) (simp add: list_ex_taken)
      moreover have "\<exists>k. 2 \<le> k \<and> k \<le> 14 \<and>
          fst (allocateUEIP_loop st upf tun0 ue now (nextIP + 1)) = candidateIP k"
        using "1.IH" True t "1.prems" by (simp add: list_ex_taken)
      ultimately show ?thesis by simp
    qed
  qed
qed

lemma allocateUEIP_in_range:
  "tun0Interface (config upf) = Some tun0 \<Longrightarrow> 2 \<le> scan_start tun0 \<Longrightarrow>
   \<exists>k. 2 \<le> k \<and> k \<le> 14 \<and> fst (allocateUEIP st upf ue now) = candidateIP k"
  using loop_in_range [of "scan_start tun0" st upf tun0 ue now]
  by (simp add: allocateUEIP_def scan_start_def)

text \<open>
  Claim C3, as the specification words it, fails for a pool whose counter is below 2: the
  scan starts at the counter and only its upper end is bounded, so from the counter 1 the
  address handed out is \<open>10.0.0.1\<close>, the gateway's own, outside the range 2 to 14.
\<close>

theorem allocateUEIP_low_counter_counterexample:
  "nextAvailableIP low_pool = Some 1 \<and> assignedIPs low_pool = Some [] \<and>
   fst (allocateUEIP (pool_store low_pool) (gateway_nf low_pool) (requester 1) 0) = ''10.0.0.1''"
  by code_simp

text \<open>
  Claim C3, amended. Take a gateway with a pool whose allocation mapping has the entries
  \<open>m\<close> (none when the mapping is absent) and whose next-free counter \<open>n\<close> is at least 2 (an
  absent or zero counter counts as 2), and any requester. \<open>allocateUEIP\<close> scans the address
  numbers from \<open>n\<close> up to 14. It returns the first address \<open>10.0.0.k\<close> that no entry of \<open>m\<close>
  carries, appends the entry for the requester to \<open>m\<close> and sets the counter to \<open>k + 1\<close>. When
  every address of the scanned range is carried by an entry it returns the fallback
  \<open>10.0.0.2\<close> and changes nothing. In both cases the address returned is one of \<open>10.0.0.2\<close> to
  \<open>10.0.0.14\<close>. From a pool with counter 2 and an empty mapping, thirteen consecutive
  allocations return \<open>10.0.0.2\<close> to \<open>10.0.0.14\<close> in order and the fourteenth returns the
  fallback \<open>10.0.0.2\<close>.
\<close>

theorem allocateUEIP_first_free_or_fallback:
  assumes pool: "tun0Interface (config upf) = Some tun0"
    and mapping: "assignedIPs tun0 = Some m \<or> assignedIPs tun0 = None \<and> m = []"
    and counter: "nextAvailableIP tun0 = Some n \<and> 2 \<le> n \<or>
                  (nextAvailableIP tun0 = None \<or> nextAvailableIP tun0 = Some 0) \<and> n = 2"
  shows "(\<forall>k. n \<le> k \<and> k \<le> 14 \<and> candidateIP k \<notin> a_ip ` set m \<and>
              (\<forall>j. n \<le> j \<and> j < k \<longrightarrow> candidateIP j \<in> a_ip ` set m) \<longrightarrow>
            allocateUEIP st upf ue now =
              (candidateIP k, allocated_to upf tun0 m ue now k,
               updateNF st (nf_id upf) (allocated_to upf tun0 m ue now k))) \<and>
         ((\<forall>j. n \<le> j \<and> j \<le> 14 \<longrightarrow> candidateIP j \<in> a_ip ` set m) \<longrightarrow>
            allocateUEIP st upf ue now = (''10.0.0.2'', upf, st)) \<and>
         (\<exists>k. 2 \<le> k \<and> k \<le> 14 \<and> fst (allocateUEIP st upf ue now) = candidateIP k) \<and>
         fst (allocate_all (pool_store fresh_pool) ''upf'' (map requester [1 ..< 15])) =
           [''10.0.0.2'', ''10.0.0.3'', ''10.0.0.4'', ''10.0.0.5'', ''10.0.0.6'', ''10.0.0.7'',
            ''10.0.0.8'', ''10.0.0.9'', ''10.0.0.10'', ''10.0.0.11'', ''10.0.0.12'', ''10.0.0.13'',
            ''10.0.0.14'', ''10.0.0.2'']"
proof -
  have al: "assigned_list tun0 = m" using mapping by (rule mapping_entries)
  have ss: "scan_start tun0 = n" using counter by (rule counter_start)
  have n2: "2 \<le> n" using counter by auto
  have tk: "\<And>k. taken tun0 k = (candidateIP k \<in> a_ip ` set m)"
    by (simp add: taken_def al)
  have ra: "\<And>k. record_allocation upf tun0 ue now k = allocated_to upf tun0 m ue now k"
    by (simp add: record_allocation_def allocated_to_def al)
  have 1: "\<forall>k. n \<le> k \<and> k \<le> 14 \<and> candidateIP k \<notin> a_ip ` set m \<and>
              (\<forall>j. n \<le> j \<and> j < k \<longrightarrow> candidateIP j \<in> a_ip ` set m) \<longrightarrow>
            allocateUEIP st upf ue now =
              (candidateIP k, allocated_to upf tun0 m ue now k,
               updateNF st (nf_id upf) (allocated_to upf tun0 m ue now k))"
    using allocateUEIP_found [OF pool, of _ st ue now] unfolding ss tk ra by blast
  have 2: "(\<forall>j. n \<le> j \<and> j \<le> 14 \<longrightarrow> candidateIP j \<in> a_ip ` set m) \<longrightarrow>
            allocateUEIP st upf ue now = (''10.0.0.2'', upf, st)"
    using allocateUEIP_exhausted [OF pool, of st ue now] unfolding ss tk by blast
  have 3: "\<exists>k. 2 \<le> k \<and> k \<le> 14 \<and> fst (allocateUEIP st upf ue now) = candidateIP k"
    using allocateUEIP_in_range [OF pool] ss n2 by simp
  from 1 2 3 allocate_14_times show ?thesis by (intro conjI)
qed

theorem allocateUEIP_first_free_or_fallback_witness:
  "allocateUEIP (pool_store crowded_pool) (gateway_nf crowded_pool) (requester 1) 0 =
     (''10.0.0.4'',
      allocated_to (gateway_nf crowded_pool) crowded_pool
        [\<lparr>a_ueId = ''ue-a'', a_ueName = ''UE-A'', a_ip = ''10.0.0.3'', a_assignedAt = 0\<rparr>,
         \<lparr>a_ueId = ''ue-b'', a_ueName = ''UE-B'', a_ip = ''10.0.0.2'', a_assignedAt = 0\<rparr>]
        (requester 1) 0 4,
      updateNF (pool_store crowded_pool) ''upf''
        (allocated_to (gateway_nf crowded_pool) crowded_pool
          [\<lparr>a_ueId = ''ue-a'', a_ueName = ''UE-A'', a_ip = ''10.0.0.3'', a_assignedAt = 0\<rparr>,
           \<lparr>a_ueId = ''ue-b'', a_ueName = ''UE-B'', a_ip = ''10.0.0.2'', a_assignedAt = 0\<rparr>]
          (requester 1) 0 4)) \<and>
   allocateUEIP (pool_store spent_pool) (gateway_nf spent_pool) (requester 1) 0 =
     (''10.0.0.2'', gateway_nf spent_pool, pool_store spent_pool)"
proof -
  let ?m = "[\<lparr>a_ueId = ''ue-a'', a_ueName = ''UE-A'', a_ip = ''10.0.0.3'', a_assignedAt = 0\<rparr>,
         \<lparr>a_ueId = ''ue-b'', a_ueName = ''UE-B'', a_ip = ''10.0.0.2'', a_assignedAt = 0\<rparr>]"
  have a: "tun0Interface (config (gateway_nf crowded_pool)) = Some crowded_pool"
          "tun0Interface (config (gateway_nf spent_pool)) = Some spent_pool"
    by (simp_all add: gateway_nf_def mk_nf_def plain_config_def)
  have b: "assignedIPs crowded_pool = Some ?m" "nextAvailableIP crowded_pool = None"
          "assignedIPs spent_pool = Some []" "nextAvailableIP spent_pool = Some 15"
    by (simp_all add: crowded_pool_def spent_pool_def)
  have c: "candidateIP 2 = ''10.0.0.2''" "candidateIP 3 = ''10.0.0.3''"
          "candidateIP 4 = ''10.0.0.4''"
    by code_simp+
  have e: "nf_id (gateway_nf crowded_pool) = ''upf''"
    by (simp add: gateway_nf_def mk_nf_def)
  have r: "\<forall>j::int. 2 \<le> j \<and> j < 4 \<longrightarrow> j = 2 \<or> j = 3" by presburger
  have f: "\<forall>j. (2::int) \<le> j \<and> j < 4 \<longrightarrow> candidateIP j \<in> a_ip ` set ?m"
    using r c by auto
  have g: "candidateIP 4 \<notin> a_ip ` set ?m" by (simp add: c)
  note t = allocateUEIP_first_free_or_fallback
             [of "gateway_nf crowded_pool" crowded_pool ?m 2 "pool_store crowded_pool"
                 "requester 1" 0, THEN conjunct1, THEN spec, of 4]
  have h: "allocateUEIP (pool_store crowded_pool) (gateway_nf crowded_pool) (requester 1) 0 =
     (candidateIP 4,
      allocated_to (gateway_nf crowded_pool) crowded_pool ?m (requester 1) 0 4,
      updateNF (pool_store crowded_pool) (nf_id (gateway_nf crowded_pool))
        (allocated_to (gateway_nf crowded_pool) crowded_pool ?m (requester 1) 0 4))"
    using t a(1) b(1,2) f g by simp
  note u = allocateUEIP_first_free_or_fallback
             [of "gateway_nf spent_pool" spent_pool "[]" 15 "pool_store spent_pool"
                 "requester 1" 0, THEN conjunct2, THEN conjunct1]
  have i: "allocateUEIP (pool_store spent_pool) (gateway_nf spent_pool) (requester 1) 0 =
     (''10.0.0.2'', gateway_nf spent_pool, pool_store spent_pool)"
    using u a(2) b(3,4) by simp
  from h i show ?thesis by (simp add: c e)
qed

section \<open>Properties of the reachability check\<close>

lemma hasDirectConnection_linked: "hasDirectConnection st a b = linked st a b"
  by (auto simp: hasDirectConnection_def linked_def getConnectionsForNF_def list_ex_iff)

lemma shareBus_common_bus: "shareBus st a b = common_bus st a b"
  by (auto simp: shareBus_def common_bus_def getBusConnectionsForNF_def list_ex_iff)

lemma connected_no_terminal:
  "\<not> is_terminal st a \<Longrightarrow> \<not> is_terminal st b \<Longrightarrow>
   areNFsConnected st a b = (linked st a b \<or> common_bus st a b)"
  by (subst areNFsConnected.simps)
     (simp add: hasDirectConnection_linked shareBus_common_bus is_terminal_def)

lemma connected_terminal_first:
  "is_terminal st a \<Longrightarrow>
   areNFsConnected st a b =
     (linked st a b \<or> common_bus st a b \<or>
      list_ex (\<lambda>r. areNFsConnected st r b) (radio_units_of st a))"
  apply (subst areNFsConnected.simps [of st a b])
  apply (simp add: hasDirectConnection_linked shareBus_common_bus is_terminal_def)
  apply (auto simp: list_ex_iff radio_units_of_def far_end_def getConnectionsForNF_def
              split: if_splits)
  done

lemma radio_unit_not_terminal: "r \<in> set (radio_units_of st a) \<Longrightarrow> \<not> is_terminal st r"
  by (auto simp: radio_units_of_def is_terminal_def)

lemma connected_one_level:
  "is_terminal st a \<Longrightarrow> \<not> is_terminal st b \<Longrightarrow>
   areNFsConnected st a b = (linked st a b \<or> common_bus st a b \<or> via_radio_unit st a b)"
  using connected_no_terminal [of st _ b] radio_unit_not_terminal [of _ st a]
  by (auto simp: connected_terminal_first via_radio_unit_def list_ex_iff)

lemma missing_not_linked:
  "store_wf st \<Longrightarrow> getNFById st a = None \<or> getNFById st b = None \<Longrightarrow> \<not> linked st a b"
  by (auto simp: store_wf_def linked_def list_ex_iff)

lemma missing_no_bus:
  "store_wf st \<Longrightarrow> getNFById st a = None \<or> getNFById st b = None \<Longrightarrow> \<not> common_bus st a b"
  by (auto simp: store_wf_def common_bus_def list_ex_iff)

lemma missing_not_connected:
  assumes wf: "store_wf st" and miss: "getNFById st a = None \<and> getNFById st b = None"
  shows "\<not> areNFsConnected st a b"
proof -
  have "\<not> is_terminal st a" "\<not> is_terminal st b"
    using miss by (simp_all add: is_terminal_def nf_type_of_def)
  then show ?thesis
    using connected_no_terminal [of st a b] missing_not_linked [OF wf, of a b]
          missing_no_bus [OF wf, of a b] miss
    by simp
qed

text \<open>
  Claim C5, as the specification words it, fails on two terminals that hang on the same
  radio unit: no link joins them, they share no bus and it is not the case that exactly
  one of them is a terminal, yet \<open>areNFsConnected\<close> answers true, because the third rule of
  the code asks only that one of the two be a terminal.
\<close>

theorem areNFsConnected_two_terminals_counterexample:
  "areNFsConnected two_ue_store ''ue1'' ''ue2'' \<and>
   \<not> claimed_areConnected two_ue_store ''ue1'' ''ue2''"
  by code_simp

text \<open>
  Claim C5, amended. \<open>areNFsConnected a b\<close> is true exactly when a link joins \<open>a\<close> and \<open>b\<close>, or
  they share a bus, or \<open>a\<close> is a terminal and a link of \<open>a\<close> ends at a radio unit \<open>r\<close> with
  \<open>areNFsConnected r b\<close> (\<open>b\<close> may be a terminal too). When \<open>a\<close> is a terminal and \<open>b\<close> is
  not, the inner check is decided by the first two rules, so there is one level of
  indirection through the radio unit. When neither node is a terminal the first two rules
  decide alone. When neither node exists, in a store whose links and bus attachments name
  existing nodes only, the answer is false. Nothing is said about a call whose second
  argument only is a terminal.
\<close>

theorem areNFsConnected_rules:
  "(\<not> is_terminal st a \<and> \<not> is_terminal st b \<longrightarrow>
      areNFsConnected st a b = (linked st a b \<or> common_bus st a b)) \<and>
   (is_terminal st a \<longrightarrow>
      areNFsConnected st a b =
        (linked st a b \<or> common_bus st a b \<or>
         list_ex (\<lambda>r. areNFsConnected st r b) (radio_units_of st a))) \<and>
   (is_terminal st a \<and> \<not> is_terminal st b \<longrightarrow>
      areNFsConnected st a b = (linked st a b \<or> common_bus st a b \<or> via_radio_unit st a b)) \<and>
   (store_wf st \<and> getNFById st a = None \<and> getNFById st b = None \<longrightarrow>
      \<not> areNFsConnected st a b)"
  using connected_no_terminal [of st a b] connected_terminal_first [of st a b]
        connected_one_level [of st a b] missing_not_connected [of st a b]
  by blast

lemma scenario_store_facts:
  "is_terminal (scenario_store (Some fresh_pool)) ''ue''"
  "\<not> is_terminal (scenario_store (Some fresh_pool)) ''amf''"
  "\<not> is_terminal (scenario_store (Some fresh_pool)) ''gnb''"
  "\<not> linked (scenario_store (Some fresh_pool)) ''ue'' ''amf''"
  "\<not> common_bus (scenario_store (Some fresh_pool)) ''ue'' ''amf''"
  "via_radio_unit (scenario_store (Some fresh_pool)) ''ue'' ''amf''"
  "linked (scenario_store (Some fresh_pool)) ''gnb'' ''amf''"
  "store_wf (scenario_store (Some fresh_pool))"
  "getNFById (scenario_store (Some fresh_pool)) ''nrf'' = None"
  "getNFById (scenario_store (Some fresh_pool)) ''udm'' = None"
  by (simp_all add: is_terminal_def nf_type_of_def getNFById_def scenario_store_def mk_nf_def
        amf_node_def smf_node_def gnb_node_def ue_node_def mk_conn_def linked_def
        common_bus_def via_radio_unit_def radio_units_of_def far_end_def store_wf_def)

theorem areNFsConnected_rules_witness:
  "is_terminal (scenario_store (Some fresh_pool)) ''ue'' \<and>
   \<not> is_terminal (scenario_store (Some fresh_pool)) ''amf'' \<and>
   \<not> is_terminal (scenario_store (Some fresh_pool)) ''gnb'' \<and>
   via_radio_unit (scenario_store (Some fresh_pool)) ''ue'' ''amf'' \<and>
   areNFsConnected (scenario_store (Some fresh_pool)) ''ue'' ''amf'' \<and>
   areNFsConnected (scenario_store (Some fresh_pool)) ''gnb'' ''amf'' \<and>
   store_wf (scenario_store (Some fresh_pool)) \<and>
   getNFById (scenario_store (Some fresh_pool)) ''nrf'' = None \<and>
   getNFById (scenario_store (Some fresh_pool)) ''udm'' = None \<and>
   \<not> areNFsConnected (scenario_store (Some fresh_pool)) ''nrf'' ''udm''"
  using areNFsConnected_rules [of "scenario_store (Some fresh_pool)" "''ue''" "''amf''"]
        areNFsConnected_rules [of "scenario_store (Some fresh_pool)" "''gnb''" "''amf''"]
        areNFsConnected_rules [of "scenario_store (Some fresh_pool)" "''nrf''" "''udm''"]
        scenario_store_facts
  by blast

text \<open>
  Claim C6. On the scenario topology with the link between radio unit and mobility anchor
  drawn from the mobility anchor, the terminal reaches the mobility anchor but the
  mobility anchor does not reach the terminal: the loop over \<open>ueConns\<close> walks the
  connections of the first argument also when the terminal is the second argument.
\<close>

theorem areNFsConnected_not_symmetric:
  "areNFsConnected reversed_link_store ''ue'' ''amf'' \<and>
   \<not> areNFsConnected reversed_link_store ''amf'' ''ue''"
  by code_simp

section \<open>Properties of the prerequisite validation\<close>

lemma getNFById_id: "getNFById st i = Some n \<Longrightarrow> nf_id n = i"
  by (auto simp: getNFById_def find_Some_iff)







section \<open>Properties of the store and of the release\<close>

lemma find_map_replace:
  "nf_id n = i \<Longrightarrow>
   find (\<lambda>m. nf_id m = j) (map (\<lambda>m. if nf_id m = i then n else m) xs) =
     (if j = i then (case find (\<lambda>m. nf_id m = i) xs of None \<Rightarrow> None | Some _ \<Rightarrow> Some n)
      else find (\<lambda>m. nf_id m = j) xs)"
  by (induction xs) auto

lemma getNFById_updateNF:
  "nf_id n = i \<Longrightarrow>
   getNFById (updateNF st i n) j =
     (if j = i then (case getNFById st i of None \<Rightarrow> None | Some _ \<Rightarrow> Some n)
      else getNFById st j)"
  by (simp add: getNFById_def updateNF_def find_map_replace)

lemma animatePacket_Inr:
  "animatePacket e m a b w = Inr w' \<Longrightarrow>
   w_store w' = w_store w \<and> w_sessions w' = w_sessions w \<and> \<not> env_throws e m \<and>
   w_trace w' = w_trace w @ [(m, a, b)]"
  by (auto simp: animatePacket_def split: if_splits)

lemma animatePacket_Inl:
  "animatePacket e m a b w = Inl (x, w') \<Longrightarrow> w' = w \<and> env_throws e m"
  by (auto simp: animatePacket_def split: if_splits)

lemma release_steps_frame:
  "release_steps e w ue amf smf upf = Inl (x, w') \<or> release_steps e w ue amf smf upf = Inr w' \<Longrightarrow>
   w_store w' = w_store w \<and> w_sessions w' = w_sessions w"
  unfolding release_steps_def sendN1ReleaseRequest_def sendNsmfPDUSessionRelease_def
    sendN4SessionRelease_def sendReleaseConfirmation_def sendN1ReleaseComplete_def
  by (auto split: sum.splits dest!: animatePacket_Inr animatePacket_Inl)

lemma release_steps_ok:
  "(\<exists>w'. release_steps e w ue amf smf upf = Inr w') = (\<not> list_ex (env_throws e) release_msgs)"
  unfolding release_steps_def sendN1ReleaseRequest_def sendNsmfPDUSessionRelease_def
    sendN4SessionRelease_def sendReleaseConfirmation_def sendN1ReleaseComplete_def release_msgs_def
  by (auto simp: animatePacket_def split: sum.splits if_splits)


lemma getSession_Some: "w_sessions w ueId = Some s \<Longrightarrow> getSession w ueId = (s, w)"
  by (simp add: getSession_def)

lemma modify_session_Some:
  "w_sessions w ueId = Some s \<Longrightarrow>
   modify_session w ueId f = w\<lparr>w_sessions := (w_sessions w)(ueId \<mapsto> f s)\<rparr>"
  by (simp add: modify_session_def getSession_Some)

lemma cleanup_sessions:
  "w_sessions w ueId = Some s \<Longrightarrow>
   w_sessions (cleanupSession w ueId) ueId =
     Some (s\<lparr>state := RELEASED, pduSessionId := None, assignedIP := None,
              tunnelId := None, upfId := None, createdAt := None\<rparr>)"
  by (simp add: cleanupSession_def getSession_Some modify_session_Some)

lemma cleanup_store:
  "w_sessions w ueId = Some s \<Longrightarrow>
   w_store (cleanupSession w ueId) =
     (case getNFById (w_store w) ueId of
        None \<Rightarrow> free_ip (w_store w) s ueId
      | Some ue \<Rightarrow> updateNF (free_ip (w_store w) s ueId) ueId (clear_ue_config ue))"
  by (simp add: cleanupSession_def getSession_Some modify_session_Some)

lemma cleanup_trace: "w_trace (cleanupSession w ueId) = w_trace w"
  by (simp add: cleanupSession_def getSession_def modify_session_def split: option.splits)

lemma getNFById_update_config:
  "getNFById st i = Some n \<Longrightarrow>
   getNFById (updateNF st i (n\<lparr>config := c\<rparr>)) j =
     (if j = i then Some (n\<lparr>config := c\<rparr>) else getNFById st j)"
  using getNFById_updateNF [of "n\<lparr>config := c\<rparr>" i st j] getNFById_id [of st i n]
  by simp

lemma free_ip_fields:
  "upfId s' = upfId s \<Longrightarrow> assignedIP s' = assignedIP s \<Longrightarrow>
   free_ip st s' ueId = free_ip st s ueId"
  by (simp add: free_ip_def split: option.splits)

lemma free_ip_lookup:
  "getNFById (free_ip st s ueId) j = None \<longleftrightarrow> getNFById st j = None"
  by (auto simp: free_ip_def getNFById_update_config split: option.splits)

lemma free_ip_other:
  "upfId s \<noteq> Some j \<Longrightarrow> getNFById (free_ip st s ueId) j = getNFById st j"
  by (auto simp: free_ip_def getNFById_update_config truthy_def split: option.splits)

lemma free_ip_pool:
  "upfId s = Some g \<Longrightarrow> assignedIP s = Some ip \<Longrightarrow> g \<noteq> [] \<Longrightarrow> ip \<noteq> [] \<Longrightarrow>
   pool_mapping (free_ip st s ueId) g =
     map_option (filter (\<lambda>a. a_ueId a \<noteq> ueId)) (pool_mapping st g)"
  by (auto simp: free_ip_def pool_mapping_def getNFById_update_config truthy_def
           split: option.splits)

lemma pool_mapping_updateNF_other:
  "nf_id n = i \<Longrightarrow> g \<noteq> i \<Longrightarrow> pool_mapping (updateNF st i n) g = pool_mapping st g"
  by (simp add: pool_mapping_def getNFById_updateNF)

lemma cleanup_pool:
  assumes "w_sessions w ueId = Some s" "upfId s = Some g" "assignedIP s = Some ip"
    "g \<noteq> []" "ip \<noteq> []" "g \<noteq> ueId"
  shows "pool_mapping (w_store (cleanupSession w ueId)) g =
     map_option (filter (\<lambda>a. a_ueId a \<noteq> ueId)) (pool_mapping (w_store w) g)"
proof (cases "getNFById (w_store w) ueId")
  case None
  then show ?thesis using assms by (simp add: cleanup_store free_ip_pool)
next
  case (Some ue)
  then have "nf_id (clear_ue_config ue) = ueId"
    by (simp add: clear_ue_config_def getNFById_id)
  then show ?thesis
    using assms Some by (simp add: cleanup_store free_ip_pool pool_mapping_updateNF_other)
qed

lemma cleanup_ue_config:
  assumes "w_sessions w ueId = Some s" "getNFById (w_store w) ueId = Some ue"
  shows "getNFById (w_store (cleanupSession w ueId)) ueId = Some (clear_ue_config ue)"
proof -
  have id: "nf_id (clear_ue_config ue) = ueId"
    using assms(2) by (simp add: clear_ue_config_def getNFById_id)
  have "getNFById (free_ip (w_store w) s ueId) ueId \<noteq> None"
    using assms(2) by (simp add: free_ip_lookup)
  then show ?thesis
    using assms id by (auto simp: cleanup_store getNFById_updateNF)
qed

text \<open>A release from an active session of a terminal that is still in the store ends in
  the world that \<open>cleanupSession\<close> produces, whether the steps ran, threw or were skipped.\<close>

lemma release_active:
  assumes s: "w_sessions w ueId = Some s" and act: "state s = ACTIVE"
    and ue: "getNFById (w_store w) ueId = Some ue"
  shows "w_store (snd (releasePDUSession e w ueId)) = w_store (cleanupSession w ueId) \<and>
         w_sessions (snd (releasePDUSession e w ueId)) ueId =
           w_sessions (cleanupSession w ueId) ueId"
proof (cases "validatePrerequisites (w_store w) ueId")
  case (Invalid err)
  then show ?thesis using s act ue by (simp add: releasePDUSession_def getSession_Some)
next
  case (Valid ue' amf smf upf)
  let ?w1 = "modify_session w ueId (\<lambda>s. s\<lparr>state := RELEASING\<rparr>)"
  have w1: "w_store ?w1 = w_store w" "w_sessions ?w1 ueId = Some (s\<lparr>state := RELEASING\<rparr>)"
    using s by (simp_all add: modify_session_Some)
  have fr: "\<And>x w'. release_steps e ?w1 ue amf smf upf = Inl (x, w') \<or>
                    release_steps e ?w1 ue amf smf upf = Inr w' \<Longrightarrow>
             w_store (cleanupSession w' ueId) = w_store (cleanupSession w ueId) \<and>
             w_sessions (cleanupSession w' ueId) ueId = w_sessions (cleanupSession w ueId) ueId"
  proof -
    fix x w'
    assume "release_steps e ?w1 ue amf smf upf = Inl (x, w') \<or>
            release_steps e ?w1 ue amf smf upf = Inr w'"
    from release_steps_frame [OF this] w1
    have a: "w_store w' = w_store w" "w_sessions w' ueId = Some (s\<lparr>state := RELEASING\<rparr>)"
      by simp_all
    show "w_store (cleanupSession w' ueId) = w_store (cleanupSession w ueId) \<and>
          w_sessions (cleanupSession w' ueId) ueId = w_sessions (cleanupSession w ueId) ueId"
      using a s free_ip_fields [of "s\<lparr>state := RELEASING\<rparr>" s "w_store w" ueId]
      by (simp add: cleanup_store cleanup_sessions split: option.splits)
  qed
  show ?thesis
    using s act ue Valid fr
    by (auto simp: releasePDUSession_def getSession_Some split: sum.splits)
qed


section \<open>Properties of the establishment\<close>

lemma getSession_eq:
  "getSession w ueId =
     (session_of w ueId, w\<lparr>w_sessions := (w_sessions w)(ueId \<mapsto> session_of w ueId)\<rparr>)"
  by (cases "w_sessions w ueId") (simp_all add: session_of_def getSession_def fun_upd_idem)

lemma session_of_modify: "session_of (modify_session w ueId f) ueId = f (session_of w ueId)"
  by (simp add: session_of_def modify_session_def getSession_def)

lemma store_modify: "w_store (modify_session w ueId f) = w_store w"
  by (simp add: modify_session_def)

lemma session_of_store_update: "session_of (w\<lparr>w_store := st\<rparr>) ueId = session_of w ueId"
  by (simp add: session_of_def getSession_def split: option.splits)

lemma session_of_trace_update: "session_of (w\<lparr>w_trace := t\<rparr>) ueId = session_of w ueId"
  by (simp add: session_of_def getSession_def split: option.splits)

lemma session_of_registered:
  "session_of (w\<lparr>w_sessions := (w_sessions w)(ueId \<mapsto> session_of w ueId)\<rparr>) ueId = session_of w ueId"
  by (simp add: session_of_def getSession_def)

lemma modify_session_trace: 
  "modify_session (w\<lparr>w_trace := t\<rparr>) ueId f = (modify_session w ueId f)\<lparr>w_trace := t\<rparr>"
  by (simp add: modify_session_def getSession_def split: option.splits)

lemma establish_steps_quiet:
  assumes al: "allocateUEIP (w_store w) upf ue (env_now e) = (ip, upf', st')"
    and quiet: "\<not> list_ex (env_throws e) establish_msgs"
  shows "\<exists>w'. establish_steps e w ueId ue amf smf upf = Inr w' \<and>
           w_store w' = updateNF st' ueId
             (commit_ue_config e ue upf'
                ((session_of w ueId)\<lparr>pduSessionId := Some (env_random_sid e + 1),
                   assignedIP := Some ip,
                   tunnelId := Some (''gtp-'' @ string_of_nat (1000 + env_random_tunnel e)),
                   upfId := Some (nf_id upf')\<rparr>)) \<and>
           session_of w' ueId =
             (session_of w ueId)\<lparr>pduSessionId := Some (env_random_sid e + 1),
                   assignedIP := Some ip,
                   tunnelId := Some (''gtp-'' @ string_of_nat (1000 + env_random_tunnel e)),
                   upfId := Some (nf_id upf'), state := ACTIVE, createdAt := Some (env_now e)\<rparr>"
  using al quiet
  by (simp add: establish_steps_def sendN1EstablishmentRequest_def sendNsmfPDUSessionCreate_def
        sendN4SessionEstablishment_def sendPDUSessionAccept_def sendN1SessionAccept_def
        animatePacket_def establish_msgs_def store_modify session_of_modify
        session_of_store_update session_of_trace_update modify_session_trace
        session_of_def [symmetric])


lemma establish_steps_accept_throws:
  assumes al: "allocateUEIP (w_store w) upf ue (env_now e) = (ip, upf', st')"
    and quiet: "\<not> env_throws e N1_EstablishmentRequest" "\<not> env_throws e Nsmf_PDUSession_Create"
      "\<not> env_throws e N4_EstablishmentRequest" "\<not> env_throws e N4_EstablishmentResponse"
    and throws: "env_throws e PDU_SessionAccept"
  shows "\<exists>w'. establish_steps e w ueId ue amf smf upf = Inl (PDU_SessionAccept, w') \<and>
           w_store w' = st' \<and>
           session_of w' ueId =
             (session_of w ueId)\<lparr>pduSessionId := Some (env_random_sid e + 1),
                   assignedIP := Some ip,
                   tunnelId := Some (''gtp-'' @ string_of_nat (1000 + env_random_tunnel e)),
                   upfId := Some (nf_id upf')\<rparr>"
  using al quiet throws
  by (simp add: establish_steps_def sendN1EstablishmentRequest_def sendNsmfPDUSessionCreate_def
        sendN4SessionEstablishment_def sendPDUSessionAccept_def sendN1SessionAccept_def
        animatePacket_def store_modify session_of_modify
        session_of_store_update session_of_trace_update modify_session_trace
        session_of_def [symmetric])

lemma establishing_world:
  "w_store (modify_session (w\<lparr>w_sessions := (w_sessions w)(ueId \<mapsto> session_of w ueId)\<rparr>) ueId f)
     = w_store w"
  "session_of (modify_session (w\<lparr>w_sessions := (w_sessions w)(ueId \<mapsto> session_of w ueId)\<rparr>) ueId f)
     ueId = f (session_of w ueId)"
  by (simp_all add: store_modify session_of_modify session_of_registered)

lemma establish_quiet:
  assumes idle: "state (session_of w ueId) \<noteq> ACTIVE" "state (session_of w ueId) \<noteq> ESTABLISHING"
    and v: "validatePrerequisites (w_store w) ueId = Valid ue amf smf upf"
    and al: "allocateUEIP (w_store w) upf ue (env_now e) = (ip, upf', st')"
    and quiet: "\<not> list_ex (env_throws e) establish_msgs"
  shows "fst (establishPDUSession e w ueId) \<and>
         w_store (snd (establishPDUSession e w ueId)) =
           updateNF st' ueId
             (commit_ue_config e ue upf' (committed_session e (session_of w ueId) ip (nf_id upf'))) \<and>
         session_of (snd (establishPDUSession e w ueId)) ueId =
           (committed_session e (session_of w ueId) ip (nf_id upf'))
             \<lparr>state := ACTIVE, createdAt := Some (env_now e)\<rparr>"
proof -
  let ?w1 = "modify_session (w\<lparr>w_sessions := (w_sessions w)(ueId \<mapsto> session_of w ueId)\<rparr>) ueId
               (\<lambda>s. s\<lparr>state := ESTABLISHING\<rparr>)"
  have al1: "allocateUEIP (w_store ?w1) upf ue (env_now e) = (ip, upf', st')"
    using al by (simp add: establishing_world)
  from establish_steps_quiet [OF al1 quiet, of ueId amf smf]
  obtain w' where w': "establish_steps e ?w1 ueId ue amf smf upf = Inr w'"
    "w_store w' = updateNF st' ueId
             (commit_ue_config e ue upf' (committed_session e (session_of w ueId) ip (nf_id upf')))"
    "session_of w' ueId = (committed_session e (session_of w ueId) ip (nf_id upf'))
             \<lparr>state := ACTIVE, createdAt := Some (env_now e)\<rparr>"
    by (auto simp: establishing_world committed_session_def)
  show ?thesis
    using idle v w' by (simp add: establishPDUSession_def getSession_eq)
qed

lemma establish_accept_throws:
  assumes idle: "state (session_of w ueId) \<noteq> ACTIVE" "state (session_of w ueId) \<noteq> ESTABLISHING"
    and v: "validatePrerequisites (w_store w) ueId = Valid ue amf smf upf"
    and al: "allocateUEIP (w_store w) upf ue (env_now e) = (ip, upf', st')"
    and quiet: "\<not> env_throws e N1_EstablishmentRequest" "\<not> env_throws e Nsmf_PDUSession_Create"
      "\<not> env_throws e N4_EstablishmentRequest" "\<not> env_throws e N4_EstablishmentResponse"
    and throws: "env_throws e PDU_SessionAccept"
  shows "\<not> fst (establishPDUSession e w ueId) \<and>
         w_store (snd (establishPDUSession e w ueId)) = st' \<and>
         session_of (snd (establishPDUSession e w ueId)) ueId =
           (committed_session e (session_of w ueId) ip (nf_id upf'))\<lparr>state := IDLE\<rparr>"
proof -
  let ?w1 = "modify_session (w\<lparr>w_sessions := (w_sessions w)(ueId \<mapsto> session_of w ueId)\<rparr>) ueId
               (\<lambda>s. s\<lparr>state := ESTABLISHING\<rparr>)"
  have al1: "allocateUEIP (w_store ?w1) upf ue (env_now e) = (ip, upf', st')"
    using al by (simp add: establishing_world)
  from establish_steps_accept_throws [OF al1 quiet throws, of ueId amf smf]
  obtain w' where w': "establish_steps e ?w1 ueId ue amf smf upf = Inl (PDU_SessionAccept, w')"
    "w_store w' = st'"
    "session_of w' ueId = committed_session e (session_of w ueId) ip (nf_id upf')"
    by (auto simp: establishing_world committed_session_def)
  show ?thesis
    using idle v w'
    by (simp add: establishPDUSession_def getSession_eq store_modify session_of_modify)
qed


section \<open>Establishment followed by release\<close>

lemma active_registered:
  "state (session_of w ueId) = ACTIVE \<Longrightarrow> w_sessions w ueId = Some (session_of w ueId)"
  by (cases "w_sessions w ueId") (simp_all add: session_of_def getSession_def new_session_def)

lemma find_SomeD: "find P xs = Some x \<Longrightarrow> x \<in> set xs \<and> P x"
  by (induction xs) (auto split: if_splits)

lemma validate_Valid_facts:
  assumes "validatePrerequisites st ueId = Valid ue amf smf upf"
  shows "getNFById st ueId = Some ue" "nf_type ue = ''UE''" "upf \<in> set (nfs st)"
    "nf_type upf = ''UPF''" "tun0Interface (config upf) \<noteq> None"
  using assms
  by (auto simp: validatePrerequisites_def getAllNFs_def stable_in_subnet_def
           split: option.splits if_splits dest: find_SomeD)

lemma distinct_lookup:
  "distinct (map nf_id (nfs st)) \<Longrightarrow> n \<in> set (nfs st) \<Longrightarrow> getNFById st (nf_id n) = Some n"
proof -
  have "distinct (map nf_id xs) \<Longrightarrow> n \<in> set xs \<Longrightarrow> find (\<lambda>m. nf_id m = nf_id n) xs = Some n" for xs
    by (induction xs) force+
  then show "distinct (map nf_id (nfs st)) \<Longrightarrow> n \<in> set (nfs st) \<Longrightarrow> getNFById st (nf_id n) = Some n"
    by (simp add: getNFById_def)
qed

lemma pool_of_updateNF:
  "nf_id n = i \<Longrightarrow>
   pool_of (updateNF st i n) g =
     (if g = i then (case getNFById st i of None \<Rightarrow> None | Some _ \<Rightarrow> tun0Interface (config n))
      else pool_of st g)"
  by (simp add: pool_of_def getNFById_updateNF split: option.splits)

lemma pool_mapping_pool_of:
  "pool_mapping st g = (case pool_of st g of None \<Rightarrow> None | Some t \<Rightarrow> assignedIPs t)"
  by (simp add: pool_mapping_def pool_of_def split: option.splits)

lemma free_ip_counter:
  "map_option nextAvailableIP (pool_of (free_ip st s ueId) g) =
   map_option nextAvailableIP (pool_of st g)"
  by (auto simp: free_ip_def pool_of_def getNFById_update_config split: option.splits)

lemma cleanup_counter:
  assumes "w_sessions w ueId = Some s" and "g \<noteq> ueId"
  shows "map_option nextAvailableIP (pool_of (w_store (cleanupSession w ueId)) g) =
         map_option nextAvailableIP (pool_of (w_store w) g)"
proof (cases "getNFById (w_store w) ueId")
  case None
  then show ?thesis using assms by (simp add: cleanup_store free_ip_counter)
next
  case (Some ue)
  then have "nf_id (clear_ue_config ue) = ueId"
    by (simp add: clear_ue_config_def getNFById_id)
  then show ?thesis
    using assms Some by (simp add: cleanup_store pool_of_updateNF free_ip_counter)
qed

lemma loop_result_range:
  "fst (allocateUEIP_loop st upf tun0 ue now n) = ''10.0.0.2'' \<or>
   (\<exists>j. n \<le> j \<and> j \<le> 14 \<and> fst (allocateUEIP_loop st upf tun0 ue now n) = candidateIP j)"
proof (induction st upf tun0 ue now n rule: allocateUEIP_loop.induct)
  case (1 st upf tun0 ue now nextIP)
  show ?case
  proof (cases "nextIP \<le> 14")
    case False
    then show ?thesis by (subst allocateUEIP_loop.simps) simp
  next
    case True
    show ?thesis
    proof (cases "taken tun0 nextIP")
      case False
      with True have "fst (allocateUEIP_loop st upf tun0 ue now nextIP) = candidateIP nextIP"
        by (subst allocateUEIP_loop.simps) (simp add: list_ex_taken Let_def)
      with True show ?thesis by auto
    next
      case tk: True
      with True have eq: "allocateUEIP_loop st upf tun0 ue now nextIP =
          allocateUEIP_loop st upf tun0 ue now (nextIP + 1)"
        by (subst allocateUEIP_loop.simps) (simp add: list_ex_taken)
      from "1.IH" True tk
      have "fst (allocateUEIP_loop st upf tun0 ue now (nextIP + 1)) = ''10.0.0.2'' \<or>
        (\<exists>j. nextIP + 1 \<le> j \<and> j \<le> 14 \<and>
             fst (allocateUEIP_loop st upf tun0 ue now (nextIP + 1)) = candidateIP j)"
        by (simp add: list_ex_taken)
      then show ?thesis unfolding eq by force
    qed
  qed
qed



lemma allocate_after_counter:
  assumes "tun0Interface (config upf2) = Some t" and "nextAvailableIP t = Some c" and "c \<noteq> 0"
  shows "fst (allocateUEIP st upf2 ue2 now2) = ''10.0.0.2'' \<or>
         (\<exists>j. c \<le> j \<and> j \<le> 14 \<and> fst (allocateUEIP st upf2 ue2 now2) = candidateIP j)"
  using assms loop_result_range [of st upf2 t ue2 now2 c]
  by (simp add: allocateUEIP_def)

lemma record_allocation_fields:
  "nf_id (record_allocation upf tun0 ue now k) = nf_id upf"
  "tun0Interface (config (record_allocation upf tun0 ue now k)) =
     Some (tun0\<lparr>assignedIPs := Some (assigned_list tun0 @
             [\<lparr>a_ueId = nf_id ue, a_ueName = nf_name ue, a_ip = candidateIP k,
               a_assignedAt = now\<rparr>]),
           nextAvailableIP := Some (k + 1)\<rparr>)"
  by (simp_all add: record_allocation_def)

lemma commit_ue_config_id: "nf_id (commit_ue_config e ue upf s) = nf_id ue"
  by (simp add: commit_ue_config_def)

lemma candidateIP_nonempty: "candidateIP k \<noteq> []"
  by (simp add: candidateIP_def)

text \<open>The world after a successful establishment that found the address numbered \<open>k\<close>.\<close>

lemma established_facts:
  assumes idle: "state (session_of w ueId) \<noteq> ACTIVE" "state (session_of w ueId) \<noteq> ESTABLISHING"
    and v: "validatePrerequisites (w_store w) ueId = Valid ue amf smf upf"
    and ids: "distinct (map nf_id (nfs (w_store w)))"
    and pool: "tun0Interface (config upf) = Some tun0"
    and k: "scan_start tun0 \<le> k" "k \<le> 14" "\<not> taken tun0 k"
           "\<forall>j. scan_start tun0 \<le> j \<and> j < k \<longrightarrow> taken tun0 j"
    and quiet: "\<not> list_ex (env_throws e) establish_msgs"
  shows "fst (establishPDUSession e w ueId)"
    and "session_of (snd (establishPDUSession e w ueId)) ueId =
           (committed_session e (session_of w ueId) (candidateIP k) (nf_id upf))
             \<lparr>state := ACTIVE, createdAt := Some (env_now e)\<rparr>"
    and "pool_of (w_store (snd (establishPDUSession e w ueId))) (nf_id upf) =
           Some (tun0\<lparr>assignedIPs := Some (assigned_list tun0 @
                   [\<lparr>a_ueId = ueId, a_ueName = nf_name ue, a_ip = candidateIP k,
                     a_assignedAt = env_now e\<rparr>]),
                 nextAvailableIP := Some (k + 1)\<rparr>)"
    and "getNFById (w_store (snd (establishPDUSession e w ueId))) ueId \<noteq> None"
    and "nf_id upf \<noteq> ueId"
proof -
  note vf = validate_Valid_facts [OF v]
  have ue_id: "nf_id ue = ueId" using vf(1) by (rule getNFById_id)
  have g: "getNFById (w_store w) (nf_id upf) = Some upf"
    using ids vf(3) by (rule distinct_lookup)
  show ne: "nf_id upf \<noteq> ueId"
    using g vf(1,2,4) by auto
  let ?G = "record_allocation upf tun0 ue (env_now e) k"
  have al: "allocateUEIP (w_store w) upf ue (env_now e) =
              (candidateIP k, ?G, updateNF (w_store w) (nf_id upf) ?G)"
    using pool k by (rule allocateUEIP_found)
  note r = establish_quiet [OF idle v al quiet]
  show "fst (establishPDUSession e w ueId)" using r by simp
  show "session_of (snd (establishPDUSession e w ueId)) ueId =
           (committed_session e (session_of w ueId) (candidateIP k) (nf_id upf))
             \<lparr>state := ACTIVE, createdAt := Some (env_now e)\<rparr>"
    using r by (simp add: record_allocation_fields)
  show "pool_of (w_store (snd (establishPDUSession e w ueId))) (nf_id upf) =
           Some (tun0\<lparr>assignedIPs := Some (assigned_list tun0 @
                   [\<lparr>a_ueId = ueId, a_ueName = nf_name ue, a_ip = candidateIP k,
                     a_assignedAt = env_now e\<rparr>]),
                 nextAvailableIP := Some (k + 1)\<rparr>)"
    using r ne g ue_id
    by (simp add: pool_of_updateNF commit_ue_config_id record_allocation_fields)
  show "getNFById (w_store (snd (establishPDUSession e w ueId))) ueId \<noteq> None"
    using r ne vf(1) ue_id
    by (simp add: getNFById_updateNF commit_ue_config_id record_allocation_fields)
qed


lemma validate_Valid_ue:
  "validatePrerequisites st ueId = Valid ue amf smf upf \<Longrightarrow> getNFById st ueId = Some ue"
  by (rule validate_Valid_facts)

lemma release_valid_result:
  assumes act: "state (session_of w ueId) = ACTIVE"
    and v: "validatePrerequisites (w_store w) ueId = Valid ue amf smf upf"
  shows "fst (releasePDUSession e w ueId) = (\<not> list_ex (env_throws e) release_msgs)"
proof -
  have ue: "getNFById (w_store w) ueId = Some ue" using v by (rule validate_Valid_ue)
  have s: "w_sessions w ueId = Some (session_of w ueId)" using act by (rule active_registered)
  show ?thesis
    using s act ue v
      release_steps_ok [of e "modify_session w ueId (\<lambda>s. s\<lparr>state := RELEASING\<rparr>)" ue amf smf upf]
    by (auto simp: releasePDUSession_def getSession_Some split: sum.splits)
qed

lemma release_invalid_result:
  assumes act: "state (session_of w ueId) = ACTIVE"
    and ue: "getNFById (w_store w) ueId = Some ue"
    and v: "validatePrerequisites (w_store w) ueId = Invalid err"
  shows "releasePDUSession e w ueId = (True, cleanupSession w ueId)"
proof -
  have s: "w_sessions w ueId = Some (session_of w ueId)" using act by (rule active_registered)
  show ?thesis using s act ue v by (simp add: releasePDUSession_def getSession_Some)
qed

lemma released_facts:
  assumes act: "state (session_of w ueId) = ACTIVE"
    and ue: "getNFById (w_store w) ueId = Some ue"
  shows "session_released (snd (releasePDUSession e w ueId)) ueId"
    and "ue_config_cleared (w_store (snd (releasePDUSession e w ueId))) ueId"
proof -
  have s: "w_sessions w ueId = Some (session_of w ueId)" using act by (rule active_registered)
  show "session_released (snd (releasePDUSession e w ueId)) ueId"
    using release_active [OF s act ue, of e] cleanup_sessions [OF s]
    by (simp add: session_released_def)
  show "ue_config_cleared (w_store (snd (releasePDUSession e w ueId))) ueId"
    using release_active [OF s act ue, of e] cleanup_ue_config [OF s ue]
    by (simp add: ue_config_cleared_def clear_ue_config_def)
qed

lemma released_pool:
  assumes act: "state (session_of w ueId) = ACTIVE"
    and ue: "getNFById (w_store w) ueId = Some ue"
    and g: "upfId (session_of w ueId) = Some g" "assignedIP (session_of w ueId) = Some ip"
           "g \<noteq> []" "ip \<noteq> []" "g \<noteq> ueId"
  shows "pool_mapping (w_store (snd (releasePDUSession e w ueId))) g =
           map_option (filter (\<lambda>a. a_ueId a \<noteq> ueId)) (pool_mapping (w_store w) g)"
    and "map_option nextAvailableIP (pool_of (w_store (snd (releasePDUSession e w ueId))) g) =
           map_option nextAvailableIP (pool_of (w_store w) g)"
proof -
  have s: "w_sessions w ueId = Some (session_of w ueId)" using act by (rule active_registered)
  show "pool_mapping (w_store (snd (releasePDUSession e w ueId))) g =
           map_option (filter (\<lambda>a. a_ueId a \<noteq> ueId)) (pool_mapping (w_store w) g)"
    using release_active [OF s act ue, of e] cleanup_pool [OF s g] by simp
  show "map_option nextAvailableIP (pool_of (w_store (snd (releasePDUSession e w ueId))) g) =
           map_option nextAvailableIP (pool_of (w_store w) g)"
    using release_active [OF s act ue, of e] cleanup_counter [OF s g(5)] by simp
qed

lemma filtered_mapping_facts:
  "pool_mapping st' g = map_option (filter (\<lambda>a. a_ueId a \<noteq> ueId)) (pool_mapping st g) \<Longrightarrow>
   \<not> holds_allocation st' g ueId \<and>
   address_allocated st' g ip = other_holder st g ip ueId"
  by (auto simp: holds_allocation_def address_allocated_def other_holder_def list_ex_iff
           split: option.splits)


lemma established_store:
  assumes idle: "state (session_of w ueId) \<noteq> ACTIVE" "state (session_of w ueId) \<noteq> ESTABLISHING"
    and v: "validatePrerequisites (w_store w) ueId = Valid ue amf smf upf"
    and pool: "tun0Interface (config upf) = Some tun0"
    and k: "scan_start tun0 \<le> k" "k \<le> 14" "\<not> taken tun0 k"
           "\<forall>j. scan_start tun0 \<le> j \<and> j < k \<longrightarrow> taken tun0 j"
    and quiet: "\<not> list_ex (env_throws e) establish_msgs"
  shows "w_store (snd (establishPDUSession e w ueId)) =
           updateNF (updateNF (w_store w) (nf_id upf) (record_allocation upf tun0 ue (env_now e) k))
             ueId
             (commit_ue_config e ue (record_allocation upf tun0 ue (env_now e) k)
                (committed_session e (session_of w ueId) (candidateIP k) (nf_id upf)))"
proof -
  have al: "allocateUEIP (w_store w) upf ue (env_now e) =
              (candidateIP k, record_allocation upf tun0 ue (env_now e) k,
               updateNF (w_store w) (nf_id upf) (record_allocation upf tun0 ue (env_now e) k))"
    using pool k by (rule allocateUEIP_found)
  show ?thesis
    using establish_quiet [OF idle v al quiet] by (simp add: record_allocation_fields)
qed

lemma established_fallback_facts:
  assumes idle: "state (session_of w ueId) \<noteq> ACTIVE" "state (session_of w ueId) \<noteq> ESTABLISHING"
    and v: "validatePrerequisites (w_store w) ueId = Valid ue amf smf upf"
    and pool: "tun0Interface (config upf) = Some tun0"
    and ex: "\<forall>j. scan_start tun0 \<le> j \<and> j \<le> 14 \<longrightarrow> taken tun0 j"
    and quiet: "\<not> list_ex (env_throws e) establish_msgs"
  shows "fst (establishPDUSession e w ueId)"
    and "session_of (snd (establishPDUSession e w ueId)) ueId =
           (committed_session e (session_of w ueId) ''10.0.0.2'' (nf_id upf))
             \<lparr>state := ACTIVE, createdAt := Some (env_now e)\<rparr>"
    and "w_store (snd (establishPDUSession e w ueId)) =
           updateNF (w_store w) ueId
             (commit_ue_config e ue upf
                (committed_session e (session_of w ueId) ''10.0.0.2'' (nf_id upf)))"
proof -
  have al: "allocateUEIP (w_store w) upf ue (env_now e) = (''10.0.0.2'', upf, w_store w)"
    using pool ex by (rule allocateUEIP_exhausted)
  note r = establish_quiet [OF idle v al quiet]
  show "fst (establishPDUSession e w ueId)" using r by simp
  show "session_of (snd (establishPDUSession e w ueId)) ueId =
           (committed_session e (session_of w ueId) ''10.0.0.2'' (nf_id upf))
             \<lparr>state := ACTIVE, createdAt := Some (env_now e)\<rparr>" using r by simp
  show "w_store (snd (establishPDUSession e w ueId)) =
           updateNF (w_store w) ueId
             (commit_ue_config e ue upf
                (committed_session e (session_of w ueId) ''10.0.0.2'' (nf_id upf)))"
    using r by simp
qed

lemma release_missing_ue:
  "state (session_of w ueId) = ACTIVE \<Longrightarrow> getNFById (w_store w) ueId = None \<Longrightarrow>
   releasePDUSession e w ueId = (False, w)"
  using active_registered [of w ueId]
  by (simp add: releasePDUSession_def getSession_Some)

lemma getNFById_removeNF:
  "getNFById (removeNF st i) j = (if j = i then None else getNFById st j)"
proof -
  have "find (\<lambda>n. nf_id n = j) (filter (\<lambda>n. nf_id n \<noteq> i) xs) =
        (if j = i then None else find (\<lambda>n. nf_id n = j) xs)" for xs
    by (induction xs) auto
  from this [of "nfs st"] show ?thesis by (simp add: getNFById_def removeNF_def)
qed

lemma pool_of_removeNF: "g \<noteq> i \<Longrightarrow> pool_of (removeNF st i) g = pool_of st g"
  by (simp add: pool_of_def getNFById_removeNF)

lemma world0_facts:
  "session_of (world0 st) u = new_session u"
  "w_store (world0 st) = st"
  "state (new_session u) = IDLE"
  by (simp_all add: session_of_def getSession_def world0_def new_session_def)

lemma quiet_env_facts:
  "\<not> list_ex (env_throws quiet_env) establish_msgs"
  "\<not> list_ex (env_throws quiet_env) release_msgs"
  "env_now quiet_env = 1000"
  by (simp_all add: quiet_env_def establish_msgs_def release_msgs_def)

lemma gateway_nf_facts:
  "tun0Interface (config (gateway_nf P)) = Some P"
  "nf_id (gateway_nf P) = ''upf''"
  by (simp_all add: gateway_nf_def mk_nf_def plain_config_def)

lemma validate_scenario_any_pool:
  "validatePrerequisites (scenario_store (Some P)) ''ue'' =
     Valid ue_node amf_node smf_node (gateway_nf P)"
  by code_simp

lemma validate_after_commit:
  "validatePrerequisites (updateNF (scenario_store (Some P)) ''ue''
      (commit_ue_config e ue_node G s)) ''ue'' =
     Valid (commit_ue_config e ue_node G s) amf_node smf_node (gateway_nf P)"
  by code_simp

lemma validate_established:
  "validatePrerequisites
     (updateNF (updateNF (scenario_store (Some P)) ''upf''
        (record_allocation (gateway_nf P) P u now k)) ''ue''
        (commit_ue_config e ue_node G s)) ''ue'' =
     Valid (commit_ue_config e ue_node G s) amf_node smf_node
       (record_allocation (gateway_nf P) P u now k)"
  by code_simp

lemma distinct_scenario: "distinct (map nf_id (nfs (scenario_store P)))"
  by code_simp

lemma candidateIP_values:
  "candidateIP 2 = ''10.0.0.2''" "candidateIP 14 = ''10.0.0.14''"
  by code_simp+

lemma pool_scan_facts:
  "scan_start fresh_pool = 2" "\<not> taken fresh_pool 2"
  "scan_start last_pool = 14" "\<not> taken last_pool 14"
  "scan_start spent_pool = 15" "scan_start held_pool = 15"
  by (simp_all add: scan_start_def taken_def assigned_list_def fresh_pool_def last_pool_def
        spent_pool_def held_pool_def)


lemma scenario_idle:
  "state (session_of (world0 (scenario_store (Some P))) ''ue'') \<noteq> ACTIVE"
  "state (session_of (world0 (scenario_store (Some P))) ''ue'') \<noteq> ESTABLISHING"
  "validatePrerequisites (w_store (world0 (scenario_store (Some P)))) ''ue'' =
     Valid ue_node amf_node smf_node (gateway_nf P)"
  "distinct (map nf_id (nfs (w_store (world0 (scenario_store (Some P))))))"
  by (simp_all add: world0_facts validate_scenario_any_pool distinct_scenario)

lemma ue_node_name: "nf_name ue_node = ''UE-1''"
  by (simp add: ue_node_def mk_nf_def)

text \<open>The scenario's establishment when the scan finds the address numbered \<open>k\<close>.\<close>

lemma established_found:
  assumes k: "scan_start P \<le> k" "k \<le> 14" "\<not> taken P k"
             "\<forall>j. scan_start P \<le> j \<and> j < k \<longrightarrow> taken P j"
  shows "fst (establishPDUSession quiet_env (world0 (scenario_store (Some P))) ''ue'')"
    and "session_of (established P) ''ue'' =
           (committed_session quiet_env (new_session ''ue'') (candidateIP k) ''upf'')
             \<lparr>state := ACTIVE, createdAt := Some 1000\<rparr>"
    and "pool_of (w_store (established P)) ''upf'' =
           Some (P\<lparr>assignedIPs := Some (assigned_list P @
                   [\<lparr>a_ueId = ''ue'', a_ueName = ''UE-1'', a_ip = candidateIP k,
                     a_assignedAt = 1000\<rparr>]),
                 nextAvailableIP := Some (k + 1)\<rparr>)"
    and "getNFById (w_store (established P)) ''ue'' \<noteq> None"
    and "\<exists>ue amf smf upf. validatePrerequisites (w_store (established P)) ''ue'' =
           Valid ue amf smf upf"
proof -
  note f = established_facts [OF scenario_idle gateway_nf_facts(1) k quiet_env_facts(1)]
  show "fst (establishPDUSession quiet_env (world0 (scenario_store (Some P))) ''ue'')"
    using f(1) .
  show "session_of (established P) ''ue'' =
           (committed_session quiet_env (new_session ''ue'') (candidateIP k) ''upf'')
             \<lparr>state := ACTIVE, createdAt := Some 1000\<rparr>"
    using f(2) by (simp add: established_def world0_facts gateway_nf_facts quiet_env_facts)
  show "pool_of (w_store (established P)) ''upf'' =
           Some (P\<lparr>assignedIPs := Some (assigned_list P @
                   [\<lparr>a_ueId = ''ue'', a_ueName = ''UE-1'', a_ip = candidateIP k,
                     a_assignedAt = 1000\<rparr>]),
                 nextAvailableIP := Some (k + 1)\<rparr>)"
    using f(3) by (simp add: established_def gateway_nf_facts quiet_env_facts ue_node_name)
  show "getNFById (w_store (established P)) ''ue'' \<noteq> None"
    using f(4) by (simp add: established_def)
  show "\<exists>ue amf smf upf. validatePrerequisites (w_store (established P)) ''ue'' =
           Valid ue amf smf upf"
    using established_store [OF scenario_idle(1,2,3) gateway_nf_facts(1) k quiet_env_facts(1)]
    by (simp add: established_def world0_facts gateway_nf_facts validate_established)
qed

text \<open>The scenario's establishment when the scan finds nothing.\<close>

lemma established_fallback:
  assumes ex: "\<forall>j. scan_start P \<le> j \<and> j \<le> 14 \<longrightarrow> taken P j"
  shows "fst (establishPDUSession quiet_env (world0 (scenario_store (Some P))) ''ue'')"
    and "session_of (established P) ''ue'' =
           (committed_session quiet_env (new_session ''ue'') ''10.0.0.2'' ''upf'')
             \<lparr>state := ACTIVE, createdAt := Some 1000\<rparr>"
    and "pool_of (w_store (established P)) ''upf'' = Some P"
    and "getNFById (w_store (established P)) ''ue'' \<noteq> None"
    and "\<exists>ue amf smf upf. validatePrerequisites (w_store (established P)) ''ue'' =
           Valid ue amf smf upf"
proof -
  note f = established_fallback_facts
             [OF scenario_idle(1,2,3) gateway_nf_facts(1) ex quiet_env_facts(1)]
  have st: "w_store (established P) =
              updateNF (scenario_store (Some P)) ''ue''
                (commit_ue_config quiet_env ue_node (gateway_nf P)
                   (committed_session quiet_env (new_session ''ue'') ''10.0.0.2'' ''upf''))"
    using f(3) by (simp add: established_def world0_facts gateway_nf_facts)
  show "fst (establishPDUSession quiet_env (world0 (scenario_store (Some P))) ''ue'')"
    using f(1) .
  show "session_of (established P) ''ue'' =
           (committed_session quiet_env (new_session ''ue'') ''10.0.0.2'' ''upf'')
             \<lparr>state := ACTIVE, createdAt := Some 1000\<rparr>"
    using f(2) by (simp add: established_def world0_facts gateway_nf_facts quiet_env_facts)
  have pool: "pool_of (scenario_store (Some P)) ''upf'' = Some P"
    by code_simp
  have ue: "getNFById (scenario_store (Some P)) ''ue'' = Some ue_node"
    by code_simp
  have id: "nf_id ue_node = ''ue''"
    by code_simp
  show "pool_of (w_store (established P)) ''upf'' = Some P"
    unfolding st using pool id by (simp add: pool_of_updateNF commit_ue_config_id)
  show "getNFById (w_store (established P)) ''ue'' \<noteq> None"
    unfolding st using ue id by (simp add: getNFById_updateNF commit_ue_config_id)
  show "\<exists>ue amf smf upf. validatePrerequisites (w_store (established P)) ''ue'' =
           Valid ue amf smf upf"
    unfolding st by (simp add: validate_after_commit)
qed

lemma committed_fields:
  "state ((committed_session e s ip g)\<lparr>state := ACTIVE, createdAt := c\<rparr>) = ACTIVE"
  "assignedIP ((committed_session e s ip g)\<lparr>state := ACTIVE, createdAt := c\<rparr>) = Some ip"
  "upfId ((committed_session e s ip g)\<lparr>state := ACTIVE, createdAt := c\<rparr>) = Some g"
  "state ((committed_session e s ip g)\<lparr>state := IDLE\<rparr>) = IDLE"
  "assignedIP ((committed_session e s ip g)\<lparr>state := IDLE\<rparr>) = Some ip"
  "upfId ((committed_session e s ip g)\<lparr>state := IDLE\<rparr>) = Some g"
  "tunnelId ((committed_session e s ip g)\<lparr>state := IDLE\<rparr>) =
     Some (''gtp-'' @ string_of_nat (1000 + env_random_tunnel e))"
  by (simp_all add: committed_session_def)


section \<open>The release always cleans up\<close>

lemma mapping_of_pool:
  "pool_of st g = Some t \<Longrightarrow> pool_mapping st g = assignedIPs t"
  by (simp add: pool_mapping_pool_of)

text \<open>
  Claim C2, as the specification words it, fails for a terminal that was handed the
  fallback address while another terminal holds \<open>10.0.0.2\<close>. The pool's counter is past
  14 and its mapping holds the entry of terminal \<open>ue-a\<close> for \<open>10.0.0.2\<close>; the scenario's
  terminal establishes, is assigned the fallback \<open>10.0.0.2\<close>, and releases with all five
  steps succeeding. Its session is released, but its assigned address is still in the
  gateway's mapping: \<open>cleanupSession\<close> removes the entries that the terminal owns, and
  this one belongs to \<open>ue-a\<close>.
\<close>

theorem releasePDUSession_shared_address_counterexample:
  "state (session_of (established held_pool) ''ue'') = ACTIVE \<and>
   assignedIP (session_of (established held_pool) ''ue'') = Some ''10.0.0.2'' \<and>
   upfId (session_of (established held_pool) ''ue'') = Some ''upf'' \<and>
   fst (releasePDUSession quiet_env (established held_pool) ''ue'') \<and>
   session_released (released held_pool) ''ue'' \<and>
   address_allocated (w_store (released held_pool)) ''upf'' ''10.0.0.2''"
proof -
  have ex: "\<forall>j. scan_start held_pool \<le> j \<and> j \<le> 14 \<longrightarrow> taken held_pool j"
    by (auto simp: pool_scan_facts)
  note f = established_fallback [OF ex]
  have s: "state (session_of (established held_pool) ''ue'') = ACTIVE"
          "upfId (session_of (established held_pool) ''ue'') = Some ''upf''"
          "assignedIP (session_of (established held_pool) ''ue'') = Some ''10.0.0.2''"
    using f(2) by (simp_all add: committed_fields)
  obtain ue amf smf upf where
    v: "validatePrerequisites (w_store (established held_pool)) ''ue'' = Valid ue amf smf upf"
    using f(5) by blast
  have ue: "getNFById (w_store (established held_pool)) ''ue'' = Some ue"
    using v by (rule validate_Valid_ue)
  have ne: "''upf'' \<noteq> []" "''10.0.0.2'' \<noteq> []" "''upf'' \<noteq> ''ue''"
    by simp_all
  have oh: "other_holder (w_store (established held_pool)) ''upf'' ''10.0.0.2'' ''ue''"
    using mapping_of_pool [OF f(3)]
    by (simp add: other_holder_def held_pool_def)
  note p = released_pool(1) [OF s(1) ue s(2,3) ne, of quiet_env]
  show ?thesis
    using s release_valid_result [OF s(1) v, of quiet_env] quiet_env_facts(2)
          released_facts(1) [OF s(1) ue, of quiet_env]
          filtered_mapping_facts [OF p, of "''10.0.0.2''"] oh
    by (simp add: released_def)
qed

text \<open>
  Claim C2, amended. For every terminal whose session is active (with its gateway and
  address recorded in the session) and whose prerequisites validate when
  \<open>releasePDUSession\<close> is called, the operation ends with the session state \<open>RELEASED\<close> and
  the session fields cleared, the terminal's session and tunnel config fields cleared,
  and every entry that the terminal owns removed from the mapping of the session's
  gateway, whether the five steps succeed (result true) or one of them throws (result
  false). The assigned address is absent from that mapping afterwards unless an entry of
  another terminal carries the same address.
\<close>

theorem releasePDUSession_cleans_up:
  assumes "state (session_of w ueId) = ACTIVE"
    and "upfId (session_of w ueId) = Some g" and "assignedIP (session_of w ueId) = Some ip"
    and "g \<noteq> []" and "ip \<noteq> []" and "g \<noteq> ueId"
    and "validatePrerequisites (w_store w) ueId = Valid ue amf smf upf"
  shows "fst (releasePDUSession e w ueId) = (\<not> list_ex (env_throws e) release_msgs) \<and>
         session_released (snd (releasePDUSession e w ueId)) ueId \<and>
         ue_config_cleared (w_store (snd (releasePDUSession e w ueId))) ueId \<and>
         pool_mapping (w_store (snd (releasePDUSession e w ueId))) g =
           map_option (filter (\<lambda>a. a_ueId a \<noteq> ueId)) (pool_mapping (w_store w) g) \<and>
         \<not> holds_allocation (w_store (snd (releasePDUSession e w ueId))) g ueId \<and>
         address_allocated (w_store (snd (releasePDUSession e w ueId))) g ip =
           other_holder (w_store w) g ip ueId"
proof -
  have ue: "getNFById (w_store w) ueId = Some ue"
    using assms(7) by (rule validate_Valid_ue)
  note p = released_pool(1) [OF assms(1) ue assms(2-6), of e]
  show ?thesis
    using release_valid_result [OF assms(1,7), of e] released_facts [OF assms(1) ue, of e]
          p filtered_mapping_facts [OF p, of ip]
    by simp
qed


theorem releasePDUSession_cleans_up_witness:
  "state (session_of (established fresh_pool) ''ue'') = ACTIVE \<and>
   upfId (session_of (established fresh_pool) ''ue'') = Some ''upf'' \<and>
   assignedIP (session_of (established fresh_pool) ''ue'') = Some ''10.0.0.2'' \<and>
   fst (releasePDUSession quiet_env (established fresh_pool) ''ue'') \<and>
   \<not> fst (releasePDUSession (throwing_env N4_ReleaseResponse) (established fresh_pool) ''ue'') \<and>
   session_released
     (snd (releasePDUSession (throwing_env N4_ReleaseResponse) (established fresh_pool) ''ue''))
     ''ue'' \<and>
   ue_config_cleared
     (w_store (snd (releasePDUSession (throwing_env N4_ReleaseResponse)
                      (established fresh_pool) ''ue''))) ''ue'' \<and>
   \<not> address_allocated
     (w_store (snd (releasePDUSession (throwing_env N4_ReleaseResponse)
                      (established fresh_pool) ''ue''))) ''upf'' ''10.0.0.2''"
proof -
  have k: "scan_start fresh_pool \<le> 2" "(2::int) \<le> 14" "\<not> taken fresh_pool 2"
          "\<forall>j. scan_start fresh_pool \<le> j \<and> j < 2 \<longrightarrow> taken fresh_pool j"
    by (auto simp: pool_scan_facts)
  note f = established_found [OF k]
  have s: "state (session_of (established fresh_pool) ''ue'') = ACTIVE"
          "upfId (session_of (established fresh_pool) ''ue'') = Some ''upf''"
          "assignedIP (session_of (established fresh_pool) ''ue'') = Some ''10.0.0.2''"
    using f(2) by (simp_all add: committed_fields candidateIP_values)
  obtain ue amf smf upf where
    v: "validatePrerequisites (w_store (established fresh_pool)) ''ue'' = Valid ue amf smf upf"
    using f(5) by blast
  have ne: "''upf'' \<noteq> []" "''10.0.0.2'' \<noteq> []" "''upf'' \<noteq> ''ue''"
    by simp_all
  have oh: "\<not> other_holder (w_store (established fresh_pool)) ''upf'' ''10.0.0.2'' ''ue''"
    using mapping_of_pool [OF f(3)]
    by (simp add: other_holder_def assigned_list_def fresh_pool_def)
  have th: "throwing_env N4_ReleaseResponse = \<lparr>env_now = 1000, env_random_sid = 4,
      env_random_tunnel = 234, env_throws = (\<lambda>m. m = N4_ReleaseResponse)\<rparr>"
    by (simp add: throwing_env_def quiet_env_def)
  have t: "list_ex (env_throws (throwing_env N4_ReleaseResponse)) release_msgs"
    unfolding th by (simp add: release_msgs_def)
  show ?thesis
    using releasePDUSession_cleans_up [OF s ne v, of quiet_env]
          releasePDUSession_cleans_up [OF s ne v, of "throwing_env N4_ReleaseResponse"]
          s oh t quiet_env_facts(2)
    by simp
qed

section \<open>Release without valid prerequisites\<close>

lemma established_found_store:
  assumes k: "scan_start P \<le> k" "k \<le> 14" "\<not> taken P k"
             "\<forall>j. scan_start P \<le> j \<and> j < k \<longrightarrow> taken P j"
  shows "w_store (established P) =
           updateNF (updateNF (scenario_store (Some P)) ''upf''
                       (record_allocation (gateway_nf P) P ue_node 1000 k)) ''ue''
             (commit_ue_config quiet_env ue_node
                (record_allocation (gateway_nf P) P ue_node 1000 k)
                (committed_session quiet_env (new_session ''ue'') (candidateIP k) ''upf''))"
  using established_store [OF scenario_idle(1,2,3) gateway_nf_facts(1) k quiet_env_facts(1)]
  by (simp add: established_def world0_facts gateway_nf_facts quiet_env_facts)

lemma validate_established_without_amf:
  "validatePrerequisites
     (removeNF (updateNF (updateNF (scenario_store (Some P)) ''upf''
        (record_allocation (gateway_nf P) P u now k)) ''ue''
        (commit_ue_config e ue_node G s)) ''amf'') ''ue'' =
     Invalid ''No stable AMF found in same subnet''"
  by code_simp

lemma validate_removed: "validatePrerequisites (removeNF st i) i = Invalid ''UE not found''"
  by (simp add: validatePrerequisites_def getNFById_removeNF)

lemma node_deleted_facts:
  "session_of (node_deleted w i) u = session_of w u"
  "w_store (node_deleted w i) = removeNF (w_store w) i"
  "w_trace (node_deleted w i) = w_trace w"
  by (simp_all add: node_deleted_def session_of_store_update)

lemma fresh_pool_k:
  "scan_start fresh_pool \<le> 2" "(2::int) \<le> 14" "\<not> taken fresh_pool 2"
  "\<forall>j. scan_start fresh_pool \<le> j \<and> j < 2 \<longrightarrow> taken fresh_pool j"
  by (auto simp: pool_scan_facts)

lemma established_fresh_session:
  "state (session_of (established fresh_pool) ''ue'') = ACTIVE"
  "upfId (session_of (established fresh_pool) ''ue'') = Some ''upf''"
  "assignedIP (session_of (established fresh_pool) ''ue'') = Some ''10.0.0.2''"
  using established_found(2) [OF fresh_pool_k]
  by (simp_all add: committed_fields candidateIP_values)

lemma established_fresh_pool_of:
  "pool_of (w_store (established fresh_pool)) ''upf'' =
     Some \<lparr>gatewayIP = ''10.0.0.1'',
           assignedIPs = Some [\<lparr>a_ueId = ''ue'', a_ueName = ''UE-1'', a_ip = ''10.0.0.2'',
                                a_assignedAt = 1000\<rparr>],
           nextAvailableIP = Some 3\<rparr>"
  using established_found(3) [OF fresh_pool_k]
  by (simp add: candidateIP_values assigned_list_def fresh_pool_def)

text \<open>
  Claim C10, as the specification words it, fails when the prerequisites no longer validate
  because the terminal's node has been deleted from the store. The session is active and
  the validation reports that the terminal is not found, but \<open>releasePDUSession\<close> leaves
  through its guard on the missing node before it validates: it returns false, the session
  stays active and the address stays in the gateway's mapping.
\<close>

theorem releasePDUSession_deleted_terminal_counterexample:
  "state (session_of (node_deleted (established fresh_pool) ''ue'') ''ue'') = ACTIVE \<and>
   validatePrerequisites (w_store (node_deleted (established fresh_pool) ''ue'')) ''ue'' =
     Invalid ''UE not found'' \<and>
   \<not> fst (releasePDUSession quiet_env (node_deleted (established fresh_pool) ''ue'') ''ue'') \<and>
   state (session_of
     (snd (releasePDUSession quiet_env (node_deleted (established fresh_pool) ''ue'') ''ue''))
     ''ue'') = ACTIVE \<and>
   address_allocated
     (w_store (snd (releasePDUSession quiet_env (node_deleted (established fresh_pool) ''ue'')
                      ''ue''))) ''upf'' ''10.0.0.2''"
proof -
  let ?D = "node_deleted (established fresh_pool) ''ue''"
  have s: "state (session_of ?D ''ue'') = ACTIVE"
    by (simp add: node_deleted_facts established_fresh_session)
  have gone: "getNFById (w_store ?D) ''ue'' = None"
    by (simp add: node_deleted_facts getNFById_removeNF)
  have v: "validatePrerequisites (w_store ?D) ''ue'' = Invalid ''UE not found''"
    by (simp add: node_deleted_facts validate_removed)
  have r: "releasePDUSession quiet_env ?D ''ue'' = (False, ?D)"
    using s gone by (rule release_missing_ue)
  have p: "pool_of (w_store ?D) ''upf'' = pool_of (w_store (established fresh_pool)) ''upf''"
    by (simp add: node_deleted_facts pool_of_removeNF)
  have a: "address_allocated (w_store ?D) ''upf'' ''10.0.0.2''"
    using mapping_of_pool [OF p [unfolded established_fresh_pool_of]]
    by (simp add: address_allocated_def)
  show ?thesis
    using s v r a by simp
qed

text \<open>
  Claim C10, amended. For every terminal whose session is active and whose node is still
  in the store, but whose prerequisites no longer validate at release time,
  \<open>releasePDUSession\<close> sends no release message (the message trace is unchanged), cleans up
  locally and returns true: the session state is \<open>RELEASED\<close> with its fields cleared, the
  terminal's session and tunnel config fields are cleared, and the terminal's entries are
  removed from the mapping of the session's gateway (the assigned address is absent from
  it afterwards unless an entry of another terminal carries it).
\<close>

theorem releasePDUSession_local_cleanup:
  assumes "state (session_of w ueId) = ACTIVE"
    and "getNFById (w_store w) ueId = Some ue"
    and "validatePrerequisites (w_store w) ueId = Invalid err"
  shows "fst (releasePDUSession e w ueId) \<and>
         w_trace (snd (releasePDUSession e w ueId)) = w_trace w \<and>
         session_released (snd (releasePDUSession e w ueId)) ueId \<and>
         ue_config_cleared (w_store (snd (releasePDUSession e w ueId))) ueId \<and>
         (\<forall>g ip. upfId (session_of w ueId) = Some g \<and> assignedIP (session_of w ueId) = Some ip \<and>
                 g \<noteq> [] \<and> ip \<noteq> [] \<and> g \<noteq> ueId \<longrightarrow>
            pool_mapping (w_store (snd (releasePDUSession e w ueId))) g =
              map_option (filter (\<lambda>a. a_ueId a \<noteq> ueId)) (pool_mapping (w_store w) g) \<and>
            \<not> holds_allocation (w_store (snd (releasePDUSession e w ueId))) g ueId \<and>
            address_allocated (w_store (snd (releasePDUSession e w ueId))) g ip =
              other_holder (w_store w) g ip ueId)"
proof -
  have a: "fst (releasePDUSession e w ueId) \<and>
           w_trace (snd (releasePDUSession e w ueId)) = w_trace w"
    using release_invalid_result [OF assms, of e] by (simp add: cleanup_trace)
  have b: "pool_mapping (w_store (snd (releasePDUSession e w ueId))) g =
              map_option (filter (\<lambda>a. a_ueId a \<noteq> ueId)) (pool_mapping (w_store w) g) \<and>
            \<not> holds_allocation (w_store (snd (releasePDUSession e w ueId))) g ueId \<and>
            address_allocated (w_store (snd (releasePDUSession e w ueId))) g ip =
              other_holder (w_store w) g ip ueId"
    if "upfId (session_of w ueId) = Some g" "assignedIP (session_of w ueId) = Some ip"
       "g \<noteq> []" "ip \<noteq> []" "g \<noteq> ueId" for g ip
  proof -
    note p = released_pool(1) [OF assms(1,2) that, of e]
    show ?thesis using p filtered_mapping_facts [OF p, of ip] by simp
  qed
  show ?thesis
    using a released_facts [OF assms(1,2), of e] b by blast
qed


theorem releasePDUSession_local_cleanup_witness:
  "state (session_of (node_deleted (established fresh_pool) ''amf'') ''ue'') = ACTIVE \<and>
   getNFById (w_store (node_deleted (established fresh_pool) ''amf'')) ''ue'' \<noteq> None \<and>
   validatePrerequisites (w_store (node_deleted (established fresh_pool) ''amf'')) ''ue'' =
     Invalid ''No stable AMF found in same subnet'' \<and>
   fst (releasePDUSession quiet_env (node_deleted (established fresh_pool) ''amf'') ''ue'') \<and>
   w_trace (snd (releasePDUSession quiet_env (node_deleted (established fresh_pool) ''amf'')
                   ''ue'')) = w_trace (established fresh_pool) \<and>
   session_released
     (snd (releasePDUSession quiet_env (node_deleted (established fresh_pool) ''amf'') ''ue''))
     ''ue'' \<and>
   ue_config_cleared
     (w_store (snd (releasePDUSession quiet_env (node_deleted (established fresh_pool) ''amf'')
                      ''ue''))) ''ue'' \<and>
   \<not> address_allocated
     (w_store (snd (releasePDUSession quiet_env (node_deleted (established fresh_pool) ''amf'')
                      ''ue''))) ''upf'' ''10.0.0.2''"
proof -
  let ?N = "node_deleted (established fresh_pool) ''amf''"
  have s: "state (session_of ?N ''ue'') = ACTIVE"
          "upfId (session_of ?N ''ue'') = Some ''upf''"
          "assignedIP (session_of ?N ''ue'') = Some ''10.0.0.2''"
    by (simp_all add: node_deleted_facts established_fresh_session)
  have ex: "getNFById (w_store ?N) ''ue'' \<noteq> None"
    using established_found(4) [OF fresh_pool_k]
    by (simp add: node_deleted_facts getNFById_removeNF)
  then obtain ue where ue: "getNFById (w_store ?N) ''ue'' = Some ue"
    by blast
  have v: "validatePrerequisites (w_store ?N) ''ue'' =
             Invalid ''No stable AMF found in same subnet''"
    by (simp add: node_deleted_facts established_found_store [OF fresh_pool_k]
          validate_established_without_amf)
  have p: "pool_of (w_store ?N) ''upf'' = pool_of (w_store (established fresh_pool)) ''upf''"
    by (simp add: node_deleted_facts pool_of_removeNF)
  have oh: "\<not> other_holder (w_store ?N) ''upf'' ''10.0.0.2'' ''ue''"
    using mapping_of_pool [OF p [unfolded established_fresh_pool_of]]
    by (simp add: other_holder_def)
  have c: "upfId (session_of ?N ''ue'') = Some ''upf'' \<and>
           assignedIP (session_of ?N ''ue'') = Some ''10.0.0.2'' \<and>
           ''upf'' \<noteq> [] \<and> ''10.0.0.2'' \<noteq> [] \<and> ''upf'' \<noteq> ''ue''"
    using s by simp
  from releasePDUSession_local_cleanup [OF s(1) ue v, of quiet_env]
  have r: "fst (releasePDUSession quiet_env ?N ''ue'')"
      "w_trace (snd (releasePDUSession quiet_env ?N ''ue'')) = w_trace ?N"
      "session_released (snd (releasePDUSession quiet_env ?N ''ue'')) ''ue''"
      "ue_config_cleared (w_store (snd (releasePDUSession quiet_env ?N ''ue''))) ''ue''"
      "address_allocated (w_store (snd (releasePDUSession quiet_env ?N ''ue''))) ''upf''
         ''10.0.0.2'' = other_holder (w_store ?N) ''upf'' ''10.0.0.2'' ''ue''"
    using c by blast+
  show ?thesis
    using s(1) ex v r oh by (simp add: node_deleted_facts)
qed

section \<open>The assigned address: allocated on establishment, freed on release\<close>

lemma taken_not_other_holder:
  assumes m: "pool_mapping st g = Some (assigned_list tun0 @
                 [\<lparr>a_ueId = ueId, a_ueName = n, a_ip = candidateIP k, a_assignedAt = t\<rparr>])"
    and free: "\<not> taken tun0 k"
  shows "address_allocated st g (candidateIP k)" and "holds_allocation st g ueId"
    and "\<not> other_holder st g (candidateIP k) ueId"
  using m free
  by (force simp: address_allocated_def holds_allocation_def other_holder_def taken_def
        list_ex_iff)+

lemma allocate_after_release:
  assumes c: "map_option nextAvailableIP (pool_of st g) = Some (Some (k + 1))" and k: "2 \<le> k"
    and n: "getNFById st g = Some upf2"
  shows "fst (allocateUEIP st upf2 ue2 now2) = ''10.0.0.2'' \<or>
         (\<exists>j. k < j \<and> j \<le> 14 \<and> fst (allocateUEIP st upf2 ue2 now2) = candidateIP j)"
proof -
  from c n obtain t where t: "tun0Interface (config upf2) = Some t"
      "nextAvailableIP t = Some (k + 1)"
    by (auto simp: pool_of_def)
  have "k + 1 \<noteq> 0" using k by simp
  from allocate_after_counter [OF t this, of st ue2 now2] show ?thesis
    by force
qed

text \<open>
  Claim C4, as the specification words it, fails in two ways. On a pool whose counter has
  passed 14 the establishment completes with the fallback address \<open>10.0.0.2\<close>, which is
  not entered in the gateway's mapping. And the counter never moves back: on a pool whose
  counter stands at 14 the terminal is assigned \<open>10.0.0.14\<close>, and after its release the
  next allocation returns the fallback \<open>10.0.0.2\<close> and leaves the store as it is, so no
  later allocation returns \<open>10.0.0.14\<close> either.
\<close>

theorem establish_release_no_reallocation_counterexample:
  "fst (establishPDUSession quiet_env (world0 (scenario_store (Some spent_pool))) ''ue'') \<and>
   state (session_of (established spent_pool) ''ue'') = ACTIVE \<and>
   assignedIP (session_of (established spent_pool) ''ue'') = Some ''10.0.0.2'' \<and>
   \<not> address_allocated (w_store (established spent_pool)) ''upf'' ''10.0.0.2'' \<and>
   fst (establishPDUSession quiet_env (world0 (scenario_store (Some last_pool))) ''ue'') \<and>
   assignedIP (session_of (established last_pool) ''ue'') = Some ''10.0.0.14'' \<and>
   fst (releasePDUSession quiet_env (established last_pool) ''ue'') \<and>
   session_released (released last_pool) ''ue'' \<and>
   allocate_all (w_store (released last_pool)) ''upf'' [requester 2] =
     ([''10.0.0.2''], w_store (released last_pool))"
proof -
  have ex: "\<forall>j. scan_start spent_pool \<le> j \<and> j \<le> 14 \<longrightarrow> taken spent_pool j"
    by (auto simp: pool_scan_facts)
  note a = established_fallback [OF ex]
  have a1: "state (session_of (established spent_pool) ''ue'') = ACTIVE"
           "assignedIP (session_of (established spent_pool) ''ue'') = Some ''10.0.0.2''"
    using a(2) by (simp_all add: committed_fields)
  have a2: "\<not> address_allocated (w_store (established spent_pool)) ''upf'' ''10.0.0.2''"
    using mapping_of_pool [OF a(3)] by (simp add: address_allocated_def spent_pool_def)
  have k: "scan_start last_pool \<le> 14" "(14::int) \<le> 14" "\<not> taken last_pool 14"
          "\<forall>j. scan_start last_pool \<le> j \<and> j < 14 \<longrightarrow> taken last_pool j"
    by (auto simp: pool_scan_facts)
  note b = established_found [OF k]
  have s: "state (session_of (established last_pool) ''ue'') = ACTIVE"
          "upfId (session_of (established last_pool) ''ue'') = Some ''upf''"
          "assignedIP (session_of (established last_pool) ''ue'') = Some ''10.0.0.14''"
    using b(2) by (simp_all add: committed_fields candidateIP_values)
  obtain ue amf smf upf where
    v: "validatePrerequisites (w_store (established last_pool)) ''ue'' = Valid ue amf smf upf"
    using b(5) by blast
  have ue: "getNFById (w_store (established last_pool)) ''ue'' = Some ue"
    using v by (rule validate_Valid_ue)
  have ne: "''upf'' \<noteq> []" "''10.0.0.14'' \<noteq> []" "''upf'' \<noteq> ''ue''"
    by simp_all
  have r1: "fst (releasePDUSession quiet_env (established last_pool) ''ue'')"
    using release_valid_result [OF s(1) v, of quiet_env] quiet_env_facts(2) by simp
  have r2: "session_released (released last_pool) ''ue''"
    using released_facts(1) [OF s(1) ue, of quiet_env] by (simp add: released_def)
  have c: "map_option nextAvailableIP (pool_of (w_store (released last_pool)) ''upf'') =
             Some (Some 15)"
    using released_pool(2) [OF s(1) ue s(2,3) ne, of quiet_env] b(3)
    by (simp add: released_def)
  then obtain upf2 t where g: "getNFById (w_store (released last_pool)) ''upf'' = Some upf2"
      "tun0Interface (config upf2) = Some t" "nextAvailableIP t = Some 15"
    by (auto simp: pool_of_def split: option.splits)
  have "\<forall>j. scan_start t \<le> j \<and> j \<le> 14 \<longrightarrow> taken t j"
    using g(3) by (auto simp: scan_start_def)
  with g(2) have "allocateUEIP (w_store (released last_pool)) upf2 (requester 2) 0 =
                    (''10.0.0.2'', upf2, w_store (released last_pool))"
    by (rule allocateUEIP_exhausted)
  with g(1) have r3: "allocate_all (w_store (released last_pool)) ''upf'' [requester 2] =
     ([''10.0.0.2''], w_store (released last_pool))"
    by simp
  show ?thesis
    using a(1) a1 a2 b(1) s(3) r1 r2 r3 by simp
qed

text \<open>
  Claim C4, amended. For every terminal that completes establishment successfully on a
  gateway pool whose counter is at least 2 and whose scan finds an unallocated address
  numbered \<open>k\<close> up to 14, the assigned address is \<open>10.0.0.k\<close> with \<open>k\<close> between 2 and 14
  and it appears in that pool's mapping, owned by the terminal. After that terminal's
  release (whether its steps succeed or throw) the address is absent from the mapping and
  the terminal owns no entry. The pool's counter stays at \<open>k + 1\<close>: a later allocation
  from the pool returns either an address numbered above \<open>k\<close> or the fallback
  \<open>10.0.0.2\<close>, so the scan does not hand the released address out again.
\<close>

theorem establish_allocates_release_frees:
  assumes idle: "state (session_of w ueId) \<noteq> ACTIVE" "state (session_of w ueId) \<noteq> ESTABLISHING"
    and v: "validatePrerequisites (w_store w) ueId = Valid ue amf smf upf"
    and ids: "distinct (map nf_id (nfs (w_store w)))" and gid: "nf_id upf \<noteq> []"
    and pool: "tun0Interface (config upf) = Some tun0" and start: "2 \<le> scan_start tun0"
    and k: "scan_start tun0 \<le> k" "k \<le> 14" "\<not> taken tun0 k"
           "\<forall>j. scan_start tun0 \<le> j \<and> j < k \<longrightarrow> taken tun0 j"
    and quiet: "\<not> list_ex (env_throws e) establish_msgs"
  shows "(let w1 = snd (establishPDUSession e w ueId);
              w2 = snd (releasePDUSession e' w1 ueId)
          in fst (establishPDUSession e w ueId) \<and>
             state (session_of w1 ueId) = ACTIVE \<and>
             assignedIP (session_of w1 ueId) = Some (candidateIP k) \<and> 2 \<le> k \<and> k \<le> 14 \<and>
             upfId (session_of w1 ueId) = Some (nf_id upf) \<and>
             address_allocated (w_store w1) (nf_id upf) (candidateIP k) \<and>
             holds_allocation (w_store w1) (nf_id upf) ueId \<and>
             session_released w2 ueId \<and>
             \<not> address_allocated (w_store w2) (nf_id upf) (candidateIP k) \<and>
             \<not> holds_allocation (w_store w2) (nf_id upf) ueId \<and>
             map_option nextAvailableIP (pool_of (w_store w2) (nf_id upf)) = Some (Some (k + 1)) \<and>
             (\<forall>upf2 ue2 now2. getNFById (w_store w2) (nf_id upf) = Some upf2 \<longrightarrow>
                fst (allocateUEIP (w_store w2) upf2 ue2 now2) = ''10.0.0.2'' \<or>
                (\<exists>j. k < j \<and> j \<le> 14 \<and>
                     fst (allocateUEIP (w_store w2) upf2 ue2 now2) = candidateIP j)))"
proof -
  let ?w1 = "snd (establishPDUSession e w ueId)"
  let ?w2 = "snd (releasePDUSession e' ?w1 ueId)"
  let ?g = "nf_id upf"
  note f = established_facts [OF idle v ids pool k quiet]
  have s: "state (session_of ?w1 ueId) = ACTIVE"
          "upfId (session_of ?w1 ueId) = Some ?g"
          "assignedIP (session_of ?w1 ueId) = Some (candidateIP k)"
    using f(2) by (simp_all add: committed_fields)
  have k2: "2 \<le> k" using start k(1) by simp
  have m: "pool_mapping (w_store ?w1) ?g = Some (assigned_list tun0 @
             [\<lparr>a_ueId = ueId, a_ueName = nf_name ue, a_ip = candidateIP k,
               a_assignedAt = env_now e\<rparr>])"
    using mapping_of_pool [OF f(3)] by simp
  note a = taken_not_other_holder [OF m k(3)]
  obtain ue1 where ue1: "getNFById (w_store ?w1) ueId = Some ue1"
    using f(4) by blast
  note p = released_pool [OF s(1) ue1 s(2,3) gid candidateIP_nonempty f(5), of e']
  note q = filtered_mapping_facts [OF p(1), of "candidateIP k"]
  have c: "map_option nextAvailableIP (pool_of (w_store ?w2) ?g) = Some (Some (k + 1))"
    using p(2) f(3) by simp
  have r: "session_released ?w2 ueId"
    using s(1) ue1 by (rule released_facts(1))
  have n: "fst (allocateUEIP (w_store ?w2) upf2 ue2 now2) = ''10.0.0.2'' \<or>
           (\<exists>j. k < j \<and> j \<le> 14 \<and>
                fst (allocateUEIP (w_store ?w2) upf2 ue2 now2) = candidateIP j)"
    if "getNFById (w_store ?w2) ?g = Some upf2" for upf2 ue2 now2
    using c k2 that by (rule allocate_after_release)
  show ?thesis
    unfolding Let_def using f(1) s k2 k(2) a q c r n by blast
qed


theorem establish_allocates_release_frees_witness:
  "state (session_of (world0 (scenario_store (Some fresh_pool))) ''ue'') = IDLE \<and>
   validatePrerequisites (scenario_store (Some fresh_pool)) ''ue'' =
     Valid ue_node amf_node smf_node (gateway_nf fresh_pool) \<and>
   scan_start fresh_pool = 2 \<and> \<not> taken fresh_pool 2 \<and>
   fst (establishPDUSession quiet_env (world0 (scenario_store (Some fresh_pool))) ''ue'') \<and>
   state (session_of (established fresh_pool) ''ue'') = ACTIVE \<and>
   assignedIP (session_of (established fresh_pool) ''ue'') = Some ''10.0.0.2'' \<and>
   address_allocated (w_store (established fresh_pool)) ''upf'' ''10.0.0.2'' \<and>
   session_released (released fresh_pool) ''ue'' \<and>
   \<not> address_allocated (w_store (released fresh_pool)) ''upf'' ''10.0.0.2'' \<and>
   map_option nextAvailableIP (pool_of (w_store (released fresh_pool)) ''upf'') = Some (Some 3)"
proof -
  have gid: "nf_id (gateway_nf fresh_pool) \<noteq> []"
    by (simp add: gateway_nf_facts)
  have start: "2 \<le> scan_start fresh_pool"
    by (simp add: pool_scan_facts)
  note t = establish_allocates_release_frees
             [OF scenario_idle gid gateway_nf_facts(1) start fresh_pool_k quiet_env_facts(1),
              of quiet_env, unfolded Let_def]
  show ?thesis
    using t
    by (simp add: world0_facts validate_scenario_any_pool pool_scan_facts established_def
          released_def gateway_nf_facts candidateIP_values)
qed

section \<open>A failed establishment\<close>

lemma throwing_env_facts:
  "env_throws (throwing_env m0) m = (m = m0)"
  "env_now (throwing_env m0) = 1000"
  "env_random_tunnel (throwing_env m0) = 234"
  by (simp_all add: throwing_env_def quiet_env_def)

text \<open>
  Claim C1. On the scenario topology, let the fifth message of the establishment (the
  session accept from the session anchor to the mobility anchor) throw. The exception is
  caught, \<open>establishPDUSession\<close> returns false and the session state is back to \<open>IDLE\<close>;
  but the session object keeps the address, the tunnel identifier and the gateway that
  were written to it after the third step, and the gateway's mapping keeps the terminal's
  entry for \<open>10.0.0.2\<close>. The \<open>catch\<close> block of the release calls \<open>cleanupSession\<close>; the one
  of the establishment resets the state only.
\<close>

theorem establish_failure_keeps_allocation:
  "\<not> fst (establishPDUSession (throwing_env PDU_SessionAccept)
            (world0 (scenario_store (Some fresh_pool))) ''ue'') \<and>
   state (session_of (snd (establishPDUSession (throwing_env PDU_SessionAccept)
            (world0 (scenario_store (Some fresh_pool))) ''ue'')) ''ue'') = IDLE \<and>
   assignedIP (session_of (snd (establishPDUSession (throwing_env PDU_SessionAccept)
            (world0 (scenario_store (Some fresh_pool))) ''ue'')) ''ue'') = Some ''10.0.0.2'' \<and>
   tunnelId (session_of (snd (establishPDUSession (throwing_env PDU_SessionAccept)
            (world0 (scenario_store (Some fresh_pool))) ''ue'')) ''ue'') = Some ''gtp-1234'' \<and>
   upfId (session_of (snd (establishPDUSession (throwing_env PDU_SessionAccept)
            (world0 (scenario_store (Some fresh_pool))) ''ue'')) ''ue'') = Some ''upf'' \<and>
   holds_allocation (w_store (snd (establishPDUSession (throwing_env PDU_SessionAccept)
            (world0 (scenario_store (Some fresh_pool))) ''ue''))) ''upf'' ''ue'' \<and>
   address_allocated (w_store (snd (establishPDUSession (throwing_env PDU_SessionAccept)
            (world0 (scenario_store (Some fresh_pool))) ''ue''))) ''upf'' ''10.0.0.2''"
proof -
  let ?e = "throwing_env PDU_SessionAccept"
  let ?S = "scenario_store (Some fresh_pool)"
  let ?G = "record_allocation (gateway_nf fresh_pool) fresh_pool ue_node (env_now ?e) 2"
  have al: "allocateUEIP (w_store (world0 ?S)) (gateway_nf fresh_pool) ue_node (env_now ?e) =
              (candidateIP 2, ?G, updateNF (w_store (world0 ?S)) (nf_id (gateway_nf fresh_pool)) ?G)"
    using gateway_nf_facts(1) fresh_pool_k by (rule allocateUEIP_found)
  have q: "\<not> env_throws ?e N1_EstablishmentRequest" "\<not> env_throws ?e Nsmf_PDUSession_Create"
          "\<not> env_throws ?e N4_EstablishmentRequest" "\<not> env_throws ?e N4_EstablishmentResponse"
          "env_throws ?e PDU_SessionAccept"
    by (simp_all add: throwing_env_facts)
  note r = establish_accept_throws [OF scenario_idle(1,2,3) al q]
  have tid: "''gtp-'' @ string_of_nat (1000 + 234) = ''gtp-1234''"
    by code_simp
  have g: "getNFById ?S ''upf'' = Some (gateway_nf fresh_pool)"
    by code_simp
  have p: "pool_of (w_store (snd (establishPDUSession ?e (world0 ?S) ''ue''))) ''upf'' =
             Some (fresh_pool\<lparr>assignedIPs := Some (assigned_list fresh_pool @
                     [\<lparr>a_ueId = nf_id ue_node, a_ueName = nf_name ue_node,
                       a_ip = candidateIP 2, a_assignedAt = env_now ?e\<rparr>]),
                   nextAvailableIP := Some (2 + 1)\<rparr>)"
    using r g
    by (simp add: world0_facts gateway_nf_facts pool_of_updateNF record_allocation_fields)
  have id: "nf_id ue_node = ''ue''"
    by code_simp
  have m: "holds_allocation (w_store (snd (establishPDUSession ?e (world0 ?S) ''ue''))) ''upf'' ''ue''"
          "address_allocated (w_store (snd (establishPDUSession ?e (world0 ?S) ''ue''))) ''upf''
             ''10.0.0.2''"
    using mapping_of_pool [OF p]
    by (simp_all add: holds_allocation_def address_allocated_def id candidateIP_values)
  show ?thesis
    using r m tid
    by (simp add: committed_fields candidateIP_values record_allocation_fields gateway_nf_facts
          throwing_env_facts)
qed

section \<open>The animator's bookkeeping\<close>




























section \<open>Passes of the animator\<close>











text \<open>
  The test of \<open>updatePackets\<close> for the destination asks for the segment index
  \<open>path.length - 1\<close>, which the loop over the segments reaches when the last of the
  \<open>path.length - 1\<close> segments has been covered. The packet of the scenario, whose path has one
  segment and which covers it in its first pass, stands at the index 1 with the progress 0
  and the overall progress 1 after that pass and is live; the next pass completes it.
\<close>

lemma packet_rests_at_destination:
  "length (pkt_path (hd (packets sent_once))) = 2 \<and>
   currentSegment (hd (packets sent_once)) = 1 \<and>
   segmentProgress (hd (packets sent_once)) = 0 \<and>
   pkt_progress (hd (packets sent_once)) = 1 \<and>
   live_ids sent_once = [1] \<and> completed sent_once = [] \<and> ticks sent_once = [1] \<and>
   completed (updatePackets exact sent_once) = [1]"
  by code_simp



lemma scenario_nodes:
  "getNFById (scenario_store None) (opt_sourceId fast_options) \<noteq> None"
  "getNFById (scenario_store None) (opt_targetId fast_options) \<noteq> None"
  "getNFById (scenario_store None) (opt_targetId lost_options) = None"
  by code_simp+


section \<open>Completion happens once, and the loop idles\<close>




section \<open>A packet between unknown nodes\<close>

text \<open>
  Claim C9. When the store does not know the source or the target of a request,
  \<open>sendPacket\<close> returns a promise that is resolved already and leaves the animator as it
  was: no packet is created, the counter is not advanced, no pass is made and no frame is
  requested; no exception is raised.
\<close>

theorem sendPacket_unresolved_node:
  "getNFById st (opt_sourceId opts) = None \<or> getNFById st (opt_targetId opts) = None \<Longrightarrow>
   sendPacket fl st opts a = (ResolvedNow, a)"
  by (auto simp: sendPacket_def split: option.splits)

theorem sendPacket_unresolved_node_witness:
  "sendPacket exact (scenario_store None) lost_options sent_once = (ResolvedNow, sent_once)"
  using sendPacket_unresolved_node [of "scenario_store None" lost_options exact sent_once]
    scenario_nodes(3)
  by simp

end
